theory Spec2Isabelle
  imports Main "HOL-Library.Word"
begin

unbundle bit_operations_syntax

section \<open>Values shared by the two translation units\<close>

text \<open>
  Pointers and opaque handles (device pointers, streams, communicators, store
  objects, Level Zero drivers and devices) are natural numbers; \<open>0\<close> is \<open>nullptr\<close>.
\<close>

type_synonym handle = nat

type_synonym byte = "8 word"

text \<open>
  \<open>c10::DeviceIndex\<close>, the type of the index of a \<open>c10::Device\<close>: \<open>int8_t\<close> (PyTorch's
  \<open>c10/core/Device.h\<close>; the source converts it with \<open>static_cast<int>\<close> to print
  it). \<open>sint\<close> reads the index as the signed number it is; an \<open>int\<close> converted to
  the type keeps its low 8 bits (\<open>word_of_int\<close>; the conversion is modular since
  C++20 and in the compilers before), so 200 becomes -56.
\<close>

type_synonym DeviceIndex = "8 word"

text \<open>
  \<open>ze_result_t\<close>: the status values that \<open>XpuApi.cpp\<close> names, and every other
  value of the Level Zero enumeration by its number.
\<close>

datatype ze_result_t =
    ZE_RESULT_SUCCESS
  | ZE_RESULT_NOT_READY
  | ZE_RESULT_ERROR_DEVICE_LOST
  | ZE_RESULT_ERROR_OUT_OF_HOST_MEMORY
  | ZE_RESULT_ERROR_OUT_OF_DEVICE_MEMORY
  | ZE_RESULT_ERROR_UNINITIALIZED
  | ZE_RESULT_ERROR_UNSUPPORTED_FEATURE
  | ZE_RESULT_ERROR_INVALID_ARGUMENT
  | ZE_RESULT_ERROR_INVALID_NULL_HANDLE
  | ZE_RESULT_ERROR_INVALID_NULL_POINTER
  | ZE_RESULT_ERROR_INVALID_SIZE
  | ZE_RESULT_ERROR_UNSUPPORTED_SIZE
  | ZE_RESULT_ERROR_UNSUPPORTED_ALIGNMENT
  | ZE_RESULT_OTHER "32 word"

text \<open>
  What a call can end with instead of a value: the three C++ exceptions the code
  throws (its own \<open>std::runtime_error\<close>s, and the two of \<open>std::stoi\<close>), and
  undefined behaviour (an integer division by zero, a signed overflow, a null
  dereference), which the model reports instead of continuing.
\<close>

datatype exn =
    runtime_error string
  | invalid_argument string
  | out_of_range string
  | undefined_behaviour string

definition INT_MAX :: int where
  "INT_MAX = 2147483647"

definition INT_MIN :: int where
  "INT_MIN = - 2147483648"

subsection \<open>The C and C++ library functions the code calls\<close>

text \<open>\<open>std::to_string(int)\<close> and \<open>operator<<(int)\<close>: the decimal digits, most
  significant first, after a minus sign for a negative number.\<close>

fun decimal_digits :: "nat \<Rightarrow> nat list" where
  "decimal_digits n =
     (if n < 10 then [n] else decimal_digits (n div 10) @ [n mod 10])"

declare decimal_digits.simps [simp del]

definition digit_char :: "nat \<Rightarrow> char" where
  "digit_char d = char_of (48 + d)"

definition to_string :: "int \<Rightarrow> string" where
  "to_string i =
     (if i < 0 then CHR ''-'' # map digit_char (decimal_digits (nat (- i)))
      else map digit_char (decimal_digits (nat i)))"

text \<open>\<open>std::tolower\<close> on an \<open>unsigned char\<close>, in the C locale: the letters
  \<open>A\<close> to \<open>Z\<close> (65 to 90) move up by 32.\<close>

definition tolower :: "char \<Rightarrow> char" where
  "tolower c =
     (if 65 \<le> (of_char c :: nat) \<and> (of_char c :: nat) \<le> 90
      then char_of ((of_char c :: nat) + 32) else c)"

text \<open>\<open>strdup(s.c_str())\<close>: the copy ends at the first NUL byte of the
  \<open>std::string\<close>.\<close>

definition strdup :: "string \<Rightarrow> string" where
  "strdup s = takeWhile (\<lambda>c. (of_char c :: nat) \<noteq> 0) s"

text \<open>
  \<open>std::stoi(val)\<close>, which is \<open>strtol\<close> in base 10 with two checks: leading white
  space is skipped, one sign is read, then the longest run of digits; what follows
  the digits is ignored. No digit is \<open>std::invalid_argument\<close>; a value that does
  not fit an \<open>int\<close> is \<open>std::out_of_range\<close>.
\<close>

definition isspace :: "char \<Rightarrow> bool" where
  "isspace c = ((of_char c :: nat) = 32 \<or> (9 \<le> (of_char c :: nat) \<and> (of_char c :: nat) \<le> 13))"

definition isdigit :: "char \<Rightarrow> bool" where
  "isdigit c = (48 \<le> (of_char c :: nat) \<and> (of_char c :: nat) \<le> 57)"

definition digits_value :: "string \<Rightarrow> int" where
  "digits_value ds = foldl (\<lambda>a c. 10 * a + (int (of_char c) - 48)) 0 ds"

definition stoi :: "string \<Rightarrow> exn + int" where
  "stoi str =
     (let s1 = dropWhile isspace str;
          neg = (s1 \<noteq> [] \<and> hd s1 = CHR ''-'');
          s2 = (if s1 \<noteq> [] \<and> (hd s1 = CHR ''-'' \<or> hd s1 = CHR ''+'') then tl s1 else s1);
          ds = takeWhile isdigit s2;
          v = (if neg then - digits_value ds else digits_value ds)
      in if ds = [] then Inl (invalid_argument ''stoi'')
         else if v < INT_MIN \<or> INT_MAX < v then Inl (out_of_range ''stoi'')
         else Inr v)"

text \<open>The \<open>%\<close> of C++ on \<open>int\<close>: the remainder of the division that truncates
  towards zero. A zero divisor, and \<open>INT_MIN % -1\<close>, are undefined behaviour.\<close>

definition c_rem :: "int \<Rightarrow> int \<Rightarrow> exn + int" where
  "c_rem a b =
     (if b = 0 then Inl (undefined_behaviour ''division by zero'')
      else if a = INT_MIN \<and> b = - 1 then Inl (undefined_behaviour ''signed overflow'')
      else Inr (sgn a * (\<bar>a\<bar> mod \<bar>b\<bar>)))"

section \<open>The bootstrap coordinator (\<open>TorchCommXCCLBootstrap.cpp\<close>)\<close>

subsection \<open>Data\<close>

text \<open>\<open>onecclResult_t\<close>: success, or a failure status by its number.\<close>

datatype onecclResult_t = onecclSuccess | onecclFailure nat

text \<open>
  \<open>onecclConfig_t\<close>, with the fields \<open>populateXcclConfigFromHints\<close> and
  \<open>createXcclComm\<close> assign. The two \<open>const char*\<close> fields are \<open>None\<close> for a
  null pointer. The integer fields hold what \<open>std::stoi\<close> returned, an \<open>int\<close>.
\<close>

record onecclConfig_t =
  blocking :: int
  cgaClusterSize :: int
  minCTAs :: int
  maxCTAs :: int
  netName :: "string option"
  splitShare :: int
  trafficClass :: int
  commName :: "string option"
  collnetEnable :: int
  CTAPolicy :: int
  shrinkShare :: int
  nvlsCTAs :: int
  nChannelsPerNetPeer :: int
  nvlinkCentricSched :: int

datatype log_level = INFO | WARNING | ERROR

text \<open>
  Everything the coordinator does to the world outside it, in the order it does
  it: a line it logs, a call of the Device API, of the Collective Backend, of a
  Coordination Store or of the store registry, and dropping its reference to a
  store (\<open>store_.reset()\<close>).
\<close>

datatype event =
    Log log_level string
  | XpuGetDeviceCount
  | XpuSetDevice int
  | XpuMalloc nat
  | XpuFree handle
  | XpuGetCurrentXPUStream int
  | XpuStreamSynchronize handle
  | XcclGetUniqueId
  | XcclCommInitRankConfig int "byte list" int onecclConfig_t
  | XcclAllReduce handle handle nat handle handle
  | StoreSet handle string "byte list"
  | StoreGet handle string
  | StoreManagerGetStore string string nat
  | StoreReset handle

text \<open>The state of the process: the static \<open>counter_\<close> and what has happened so
  far. (A name cannot end with an underscore here: the members \<open>counter_\<close>,
  \<open>store_\<close>, \<open>rank_\<close> and so on are written without it.)\<close>

record process =
  counter :: int
  trace :: "event list"

text \<open>The members of one \<open>TorchCommXCCLBootstrap\<close>. \<open>store\<close> is \<open>None\<close> for a
  null \<open>intrusive_ptr\<close>; \<open>device\<close> is the index of \<open>device_\<close>, a \<open>c10::Device\<close> of
  type XPU; \<open>timeout\<close> is in milliseconds.\<close>

record bootstrap =
  timeout :: nat
  store :: "handle option"
  created_internal_store :: bool
  device :: DeviceIndex
  rank :: int
  comm_size :: int
  uniqueid_xchg_method :: string
  barrier_buffer :: handle

text \<open>
  The collaborators, whose code is not part of the component: the injected
  \<open>XpuApi\<close> and \<open>XcclApi\<close> objects, the \<open>c10d::Store\<close>, the \<open>StoreManager\<close>,
  \<open>query_ranksize\<close>, the environment, and the constants of headers outside the
  repository. A world gives the answer of each collaborator to each call, as a
  function of the call's arguments, for the time of one call of the coordinator
  (no method of the coordinator calls a collaborator twice with the same
  arguments); another call of the coordinator may meet another world. Nothing else
  is assumed about the answers. A store operation and the registry may throw.
\<close>

record world =
  query_ranksize :: "int \<times> int"
  getenv :: "string \<Rightarrow> string option"
  xpu_getDeviceCount :: "ze_result_t \<times> int"
  xpu_setDevice :: "int \<Rightarrow> ze_result_t"
  xpu_malloc :: "nat \<Rightarrow> ze_result_t \<times> handle"
  xpu_free :: "handle \<Rightarrow> ze_result_t"
  xpu_getCurrentXPUStream :: "int \<Rightarrow> handle"
  xpu_streamSynchronize :: "handle \<Rightarrow> ze_result_t"
  xpu_getErrorString :: "ze_result_t \<Rightarrow> string"
  xccl_getUniqueId :: "onecclResult_t \<times> byte list"
  xccl_commInitRankConfig ::
    "int \<Rightarrow> byte list \<Rightarrow> int \<Rightarrow> onecclConfig_t \<Rightarrow> onecclResult_t \<times> handle"
  xccl_allReduce ::
    "handle \<Rightarrow> handle \<Rightarrow> nat \<Rightarrow> handle \<Rightarrow> handle \<Rightarrow> onecclResult_t"
  xccl_getErrorString :: "onecclResult_t \<Rightarrow> string"
  store_set :: "handle \<Rightarrow> string \<Rightarrow> byte list \<Rightarrow> exn option"
  store_get :: "handle \<Rightarrow> string \<Rightarrow> exn + byte list"
  getStore :: "string \<Rightarrow> string \<Rightarrow> nat \<Rightarrow> exn + handle option"
  sizeof_onecclUniqueId :: nat
  XCCL_CONFIG_INITIALIZER :: onecclConfig_t
  kBackendName :: string
  source_location :: "nat \<Rightarrow> string"

definition emit :: "event \<Rightarrow> process \<Rightarrow> process" where
  "emit e p = p\<lparr>trace := trace p @ [e]\<rparr>"

text \<open>
  The macro \<open>XPU_CHECK(xpu_api, call, err_str)\<close>: a status other than success
  becomes a \<open>std::runtime_error\<close> whose text is the message, the Device API's
  error string and the place of the macro call. \<open>source_location w l\<close> is what
  \<open>__FILE__ ":" __LINE__\<close> expands to for the macro call that starts at line \<open>l\<close>.
\<close>

definition XPU_CHECK :: "world \<Rightarrow> ze_result_t \<Rightarrow> string \<Rightarrow> nat \<Rightarrow> exn option" where
  "XPU_CHECK w status err_str l =
     (if status \<noteq> ZE_RESULT_SUCCESS
      then Some (runtime_error
             (err_str @ '': '' @ xpu_getErrorString w status @ '' at '' @ source_location w l))
      else None)"

definition kUniqueidXchgMethodAuto :: string where
  "kUniqueidXchgMethodAuto = ''auto''"

definition kUniqueidXchgMethodTCPStore :: string where
  "kUniqueidXchgMethodTCPStore = ''tcpstore''"

definition kUniqueidXchgMethodDefault :: string where
  "kUniqueidXchgMethodDefault = kUniqueidXchgMethodAuto"

subsection \<open>Construction and destruction\<close>

text \<open>
  The constructor, given the store (or a null pointer) and the device index of the
  \<open>c10::Device\<close> it is passed. It throws where an \<open>XPU_CHECK\<close> fails; then no
  coordinator exists. \<open>c10::Device(c10::kXPU, rank_ % device_count)\<close> converts the
  \<open>int\<close> remainder to the 8-bit index, and it is the converted index that is
  logged and passed to \<open>setDevice\<close>.
\<close>

definition bootstrap_ctor ::
  "world \<Rightarrow> handle option \<Rightarrow> DeviceIndex \<Rightarrow> nat \<Rightarrow> process \<Rightarrow> (exn + bootstrap) \<times> process" where
  "bootstrap_ctor w store0 device0 timeout0 p0 =
     (let ranksize = query_ranksize w;
          env = getenv w ''TORCHCOMM_XCCL_BOOTSTRAP_UNIQUEID_EXCHANGE_METHOD'';
          p1 = (case env of
                  None \<Rightarrow> emit (Log INFO
                     (''TORCHCOMM_XCCL_BOOTSTRAP_UNIQUEID_EXCHANGE_METHOD not set, '' @
                      ''defaulting to '' @ kUniqueidXchgMethodDefault)) p0
                | Some _ \<Rightarrow> p0);
          method = map tolower (case env of None \<Rightarrow> kUniqueidXchgMethodDefault | Some v \<Rightarrow> v);
          b = \<lparr>timeout = timeout0, store = store0, created_internal_store = False,
               device = device0, rank = fst ranksize, comm_size = snd ranksize,
               uniqueid_xchg_method = method, barrier_buffer = 0\<rparr>;
          finish = (\<lambda>b p.
            let st = xpu_setDevice w (sint (device b));
                p' = emit (XpuSetDevice (sint (device b))) p
            in case XPU_CHECK w st (''Failed to set device to '' @ to_string (sint (device b))) 66 of
                 Some e \<Rightarrow> (Inl e, p')
               | None \<Rightarrow>
                  (let m = xpu_malloc w 4;
                       p'' = emit (XpuMalloc 4) p'
                   in (case XPU_CHECK w (fst m) ''Failed to allocate barrier buffer'' 72 of
                         Some e \<Rightarrow> (Inl e, p'')
                       | None \<Rightarrow> (Inr (b\<lparr>barrier_buffer := snd m\<rparr>), p''))))
      in if sint device0 = - 1 then
           (let dc = xpu_getDeviceCount w;
                p2 = emit XpuGetDeviceCount p1
            in case XPU_CHECK w (fst dc) ''Failed to get XPU device count'' 56 of
                 Some e \<Rightarrow> (Inl e, p2)
               | None \<Rightarrow>
                  (case c_rem (rank b) (snd dc) of
                     Inl e \<Rightarrow> (Inl e, p2)
                   | Inr d \<Rightarrow>
                       finish (b\<lparr>device := word_of_int d\<rparr>)
                         (emit (Log INFO
                            (''User did not provide device ID; using device xpu:'' @
                             to_string (sint (word_of_int d :: DeviceIndex)))) p2)))
         else finish b p1)"

text \<open>The body of the destructor. A failing \<open>XPU_CHECK\<close> throws and leaves the
  buffer pointer as it was.\<close>

definition bootstrap_dtor :: "world \<Rightarrow> bootstrap \<Rightarrow> process \<Rightarrow> (exn + unit) \<times> bootstrap \<times> process" where
  "bootstrap_dtor w b p =
     (if barrier_buffer b \<noteq> 0 then
        (let st = xpu_free w (barrier_buffer b);
             p' = emit (XpuFree (barrier_buffer b)) p
         in case XPU_CHECK w st ''Failed to free barrier buffer'' 80 of
              Some e \<Rightarrow> (Inl e, b, p')
            | None \<Rightarrow> (Inr (), b\<lparr>barrier_buffer := 0\<rparr>, p'))
      else (Inr (), b, p))"

subsection \<open>Store keys\<close>

definition getXCCLStoreKeyPrefix :: string where
  "getXCCLStoreKeyPrefix = ''xccl_storekey_''"

text \<open>\<open>getXCCLStoreKey\<close>: the key is built from the counter, then the counter is
  incremented. \<open>counter\<close> is an \<open>int\<close>: incrementing \<open>INT_MAX\<close> is undefined
  behaviour.\<close>

definition getXCCLStoreKey :: "process \<Rightarrow> (exn + string) \<times> process" where
  "getXCCLStoreKey p =
     (let key = getXCCLStoreKeyPrefix @ to_string (counter p)
      in if counter p = INT_MAX then (Inl (undefined_behaviour ''signed overflow''), p)
         else (Inr key, p\<lparr>counter := counter p + 1\<rparr>))"

definition getXCCLStoreKeyCounter :: "process \<Rightarrow> int" where
  "getXCCLStoreKeyCounter p = counter p"

subsection \<open>Identifier exchange\<close>

text \<open>The bytes of the \<open>onecclUniqueId\<close> that \<open>getUniqueId\<close> filled: the struct
  has its size whatever was written.\<close>

definition uniqueId_bytes :: "world \<Rightarrow> byte list \<Rightarrow> byte list" where
  "uniqueId_bytes w bs =
     take (sizeof_onecclUniqueId w) (bs @ replicate (sizeof_onecclUniqueId w) 0)"

text \<open>\<open>exchangeUniqueIdStore\<close>. It changes no member of the coordinator. Calling
  a method of a null \<open>store_\<close> is undefined behaviour.\<close>

definition exchangeUniqueIdStore :: "world \<Rightarrow> bootstrap \<Rightarrow> process \<Rightarrow> (exn + byte list) \<times> process" where
  "exchangeUniqueIdStore w b p =
     (case getXCCLStoreKey p of
        (Inl e, p1) \<Rightarrow> (Inl e, p1)
      | (Inr key, p1) \<Rightarrow>
          if rank b = 0 then
            (let r = xccl_getUniqueId w;
                 p2 = emit XcclGetUniqueId p1
             in if fst r \<noteq> onecclSuccess then
                  (Inl (runtime_error
                     (''Failed to get XCCL unique ID: '' @ xccl_getErrorString w (fst r))), p2)
                else
                  (let vec = uniqueId_bytes w (snd r)
                   in (case store b of
                         None \<Rightarrow> (Inl (undefined_behaviour ''null store''), p2)
                       | Some h \<Rightarrow>
                           (case store_set w h key vec of
                              Some e \<Rightarrow> (Inl e, emit (StoreSet h key vec) p2)
                            | None \<Rightarrow> (Inr vec, emit (StoreSet h key vec) p2)))))
          else
            (case store b of
               None \<Rightarrow> (Inl (undefined_behaviour ''null store''), p1)
             | Some h \<Rightarrow>
                 (case store_get w h key of
                    Inl e \<Rightarrow> (Inl e, emit (StoreGet h key) p1)
                  | Inr vec \<Rightarrow>
                      if length vec \<noteq> sizeof_onecclUniqueId w then
                        (Inl (runtime_error ''Invalid XCCL unique ID size''),
                         emit (StoreGet h key) p1)
                      else (Inr vec, emit (StoreGet h key) p1))))"

text \<open>\<open>exchangeUniqueIdTCPStore\<close>: the registry's store replaces \<open>store_\<close> (the
  assignment drops the reference held before, if any) and the coordinator marks
  it as its own.\<close>

definition exchangeUniqueIdTCPStore ::
  "world \<Rightarrow> bootstrap \<Rightarrow> string \<Rightarrow> process \<Rightarrow> (exn + byte list) \<times> bootstrap \<times> process" where
  "exchangeUniqueIdTCPStore w b name p =
     (let p1 = emit (StoreManagerGetStore (kBackendName w) name (timeout b)) p
      in case getStore w (kBackendName w) name (timeout b) of
           Inl e \<Rightarrow> (Inl e, b, p1)
         | Inr s \<Rightarrow>
             (let p2 = (case store b of None \<Rightarrow> p1 | Some old \<Rightarrow> emit (StoreReset old) p1);
                  b' = b\<lparr>store := s, created_internal_store := True\<rparr>;
                  r = exchangeUniqueIdStore w b' p2
              in (fst r, b', snd r)))"

definition isTCPStoreEnabled :: "world \<Rightarrow> bool" where
  "isTCPStoreEnabled w =
     (getenv w ''MASTER_ADDR'' \<noteq> None \<and> getenv w ''MASTER_PORT'' \<noteq> None)"

definition exchangeUniqueId ::
  "world \<Rightarrow> bootstrap \<Rightarrow> string \<Rightarrow> process \<Rightarrow> (exn + byte list) \<times> bootstrap \<times> process" where
  "exchangeUniqueId w b name p =
     (if store b \<noteq> None then
        (let r = exchangeUniqueIdStore w b p in (fst r, b, snd r))
      else
        (let is_tcp_store_enabled = isTCPStoreEnabled w
         in if uniqueid_xchg_method b \<noteq> kUniqueidXchgMethodAuto \<and>
               uniqueid_xchg_method b \<noteq> kUniqueidXchgMethodTCPStore then
              (Inl (runtime_error
                 (''Invalid unique ID exchange method '' @ uniqueid_xchg_method b)), b, p)
            else if \<not> is_tcp_store_enabled then
              (Inl (runtime_error ''No way to exchange unique ID''), b, p)
            else exchangeUniqueIdTCPStore w b name p))"

subsection \<open>Closing synchronization\<close>

text \<open>\<open>cleanupTCPStore\<close>. The all-reduce's status is only logged; the stream
  synchronization goes through \<open>XPU_CHECK\<close>.\<close>

definition cleanupTCPStore ::
  "world \<Rightarrow> bootstrap \<Rightarrow> handle \<Rightarrow> process \<Rightarrow> (exn + unit) \<times> bootstrap \<times> process" where
  "cleanupTCPStore w b xccl_comm p =
     (if created_internal_store b then
        (let p1 = (case store b of None \<Rightarrow> p | Some h \<Rightarrow> emit (StoreReset h) p);
             b' = b\<lparr>store := None\<rparr>;
             stream = xpu_getCurrentXPUStream w (sint (device b'));
             p2 = emit (XpuGetCurrentXPUStream (sint (device b'))) p1;
             result = xccl_allReduce w (barrier_buffer b') (barrier_buffer b') 1
                        xccl_comm stream;
             p3 = emit (XcclAllReduce (barrier_buffer b') (barrier_buffer b') 1 xccl_comm stream) p2;
             p4 = (if result \<noteq> onecclSuccess
                   then emit (Log ERROR
                          (''XCCL AllReduce failed: '' @ xccl_getErrorString w result)) p3
                   else p3);
             st = xpu_streamSynchronize w stream;
             p5 = emit (XpuStreamSynchronize stream) p4
         in case XPU_CHECK w st ''Stream synchronization failed'' 184 of
              Some e \<Rightarrow> (Inl e, b', p5)
            | None \<Rightarrow> (Inr (), b', p5))
      else (Inr (), b, p))"

subsection \<open>Hints\<close>

text \<open>One branch of the chain for an integer field: \<open>std::stoi\<close>, the
  assignment, the line logged. The exception of \<open>std::stoi\<close> leaves the branch
  before anything is assigned or logged.\<close>

definition int_hint ::
  "string \<Rightarrow> string \<Rightarrow> string \<Rightarrow> (int \<Rightarrow> onecclConfig_t) \<Rightarrow> process \<Rightarrow>
     (exn + onecclConfig_t) \<times> process" where
  "int_hint name field val assign p =
     (case stoi val of
        Inl e \<Rightarrow> (Inl e, p)
      | Inr v \<Rightarrow>
          (Inr (assign v),
           emit (Log INFO (''[comm='' @ name @ ''] Setting config.'' @ field @ ''='' @ to_string v)) p))"

text \<open>One branch for a \<open>const char*\<close> field: a copy of the value.\<close>

definition str_hint ::
  "string \<Rightarrow> string \<Rightarrow> string \<Rightarrow> (string option \<Rightarrow> onecclConfig_t) \<Rightarrow> process \<Rightarrow>
     (exn + onecclConfig_t) \<times> process" where
  "str_hint name field val assign p =
     (Inr (assign (Some (strdup val))),
      emit (Log INFO (''[comm='' @ name @ ''] Setting config.'' @ field @ ''='' @ strdup val)) p)"

text \<open>The line the last branch logs (\<open>CHR 0x27\<close> is the single quote).\<close>

definition unsupported_hint_warning :: "string \<Rightarrow> string \<Rightarrow> event" where
  "unsupported_hint_warning key name =
     Log WARNING
       (''XCCL hint '' @ [CHR 0x27] @ key @ [CHR 0x27] @
        '' is not supported in this XCCL version, ignoring for comm '' @
        [CHR 0x27] @ name @ [CHR 0x27])"

text \<open>The body of the loop of \<open>populateXcclConfigFromHints\<close>, for one entry
  \<open>(key, val)\<close>: the chain of comparisons, in the order of the source.\<close>

definition hint_entry ::
  "onecclConfig_t \<Rightarrow> string \<Rightarrow> string \<Rightarrow> string \<Rightarrow> process \<Rightarrow> (exn + onecclConfig_t) \<times> process" where
  "hint_entry config key val name p =
     (if key = ''blocking'' then
        int_hint name ''blocking'' val (\<lambda>v. config\<lparr>blocking := v\<rparr>) p
      else if key = ''cgaClusterSize'' \<or> key = ''cga_cluster_size'' then
        int_hint name ''cgaClusterSize'' val (\<lambda>v. config\<lparr>cgaClusterSize := v\<rparr>) p
      else if key = ''minCTAs'' \<or> key = ''min_ctas'' then
        int_hint name ''minCTAs'' val (\<lambda>v. config\<lparr>minCTAs := v\<rparr>) p
      else if key = ''maxCTAs'' \<or> key = ''max_ctas'' then
        int_hint name ''maxCTAs'' val (\<lambda>v. config\<lparr>maxCTAs := v\<rparr>) p
      else if key = ''netName'' then
        str_hint name ''netName'' val (\<lambda>v. config\<lparr>netName := v\<rparr>) p
      else if key = ''splitShare'' \<or> key = ''split_share'' then
        int_hint name ''splitShare'' val (\<lambda>v. config\<lparr>splitShare := v\<rparr>) p
      else if key = ''trafficClass'' \<or> key = ''traffic_class'' then
        int_hint name ''trafficClass'' val (\<lambda>v. config\<lparr>trafficClass := v\<rparr>) p
      else if key = ''commName'' then
        str_hint name ''commName'' val (\<lambda>v. config\<lparr>commName := v\<rparr>) p
      else if key = ''collnetEnable'' \<or> key = ''collnet_enable'' then
        int_hint name ''collnetEnable'' val (\<lambda>v. config\<lparr>collnetEnable := v\<rparr>) p
      else if key = ''CTAPolicy'' \<or> key = ''cta_policy'' then
        int_hint name ''CTAPolicy'' val (\<lambda>v. config\<lparr>CTAPolicy := v\<rparr>) p
      else if key = ''shrinkShare'' then
        int_hint name ''shrinkShare'' val (\<lambda>v. config\<lparr>shrinkShare := v\<rparr>) p
      else if key = ''nvlsCTAs'' \<or> key = ''nvls_ctas'' then
        int_hint name ''nvlsCTAs'' val (\<lambda>v. config\<lparr>nvlsCTAs := v\<rparr>) p
      else if key = ''nChannelsPerNetPeer'' \<or> key = ''n_channels_per_net_peer'' then
        int_hint name ''nChannelsPerNetPeer'' val (\<lambda>v. config\<lparr>nChannelsPerNetPeer := v\<rparr>) p
      else if key = ''nvlinkCentricSched'' \<or> key = ''nvlink_centric_sched'' then
        int_hint name ''nvlinkCentricSched'' val (\<lambda>v. config\<lparr>nvlinkCentricSched := v\<rparr>) p
      else
        (Inr config, emit (unsupported_hint_warning key name) p))"

text \<open>\<open>populateXcclConfigFromHints\<close>: the loop over \<open>options.hints\<close>, a map from
  strings to strings, given here as its entries in the order the loop visits
  them. An exception ends the loop.\<close>

fun populateXcclConfigFromHints ::
  "onecclConfig_t \<Rightarrow> (string \<times> string) list \<Rightarrow> string \<Rightarrow> process \<Rightarrow>
     (exn + onecclConfig_t) \<times> process" where
  "populateXcclConfigFromHints config [] name p = (Inr config, p)"
| "populateXcclConfigFromHints config (kv # hints) name p =
     (case hint_entry config (fst kv) (snd kv) name p of
        (Inl e, p') \<Rightarrow> (Inl e, p')
      | (Inr config', p') \<Rightarrow> populateXcclConfigFromHints config' hints name p')"

subsection \<open>Creating the communicator\<close>

text \<open>\<open>createXcclComm\<close>, with \<open>options.hints\<close> for \<open>options\<close>. The source compares
  the status of \<open>commInitRankConfig\<close> with \<open>xcclSuccess\<close>, a name of a header
  outside the repository, taken to be the success status \<open>onecclSuccess\<close>.\<close>

definition createXcclComm ::
  "world \<Rightarrow> bootstrap \<Rightarrow> string \<Rightarrow> (string \<times> string) list \<Rightarrow> process \<Rightarrow>
     (exn + handle) \<times> bootstrap \<times> process" where
  "createXcclComm w b name hints p =
     (case exchangeUniqueId w b name p of
        (Inl e, b1, p1) \<Rightarrow> (Inl e, b1, p1)
      | (Inr uniqueId, b1, p1) \<Rightarrow>
          (let config = (XCCL_CONFIG_INITIALIZER w)\<lparr>commName := Some (strdup name)\<rparr>
           in (case populateXcclConfigFromHints config hints name p1 of
                 (Inl e, p2) \<Rightarrow> (Inl e, b1, p2)
               | (Inr config', p2) \<Rightarrow>
                   (let r = xccl_commInitRankConfig w (comm_size b1) uniqueId (rank b1) config';
                        p3 = emit (XcclCommInitRankConfig (comm_size b1) uniqueId (rank b1) config') p2
                    in if fst r \<noteq> onecclSuccess \<or> snd r = 0 then
                         (Inl (runtime_error
                            (''Failed to initialize XCCL communicator: '' @
                             xccl_getErrorString w (fst r))), b1, p3)
                       else
                         (case cleanupTCPStore w b1 (snd r) p3 of
                            (Inl e, b2, p4) \<Rightarrow> (Inl e, b2, p4)
                          | (Inr u, b2, p4) \<Rightarrow> (Inr (snd r), b2, p4))))))"

section \<open>The Device API on Level Zero (\<open>XpuApi.cpp\<close>)\<close>









section \<open>Vocabulary of the properties\<close>

text \<open>The keys the chain of \<open>populateXcclConfigFromHints\<close> compares with, in its
  order, and those among them whose branch calls \<open>std::stoi\<close>.\<close>

definition recognized_hints :: "string list" where
  "recognized_hints =
     [''blocking'', ''cgaClusterSize'', ''cga_cluster_size'', ''minCTAs'', ''min_ctas'',
      ''maxCTAs'', ''max_ctas'', ''netName'', ''splitShare'', ''split_share'',
      ''trafficClass'', ''traffic_class'', ''commName'', ''collnetEnable'', ''collnet_enable'',
      ''CTAPolicy'', ''cta_policy'', ''shrinkShare'', ''nvlsCTAs'', ''nvls_ctas'',
      ''nChannelsPerNetPeer'', ''n_channels_per_net_peer'', ''nvlinkCentricSched'',
      ''nvlink_centric_sched'']"

definition integer_hints :: "string list" where
  "integer_hints = filter (\<lambda>k. k \<noteq> ''netName'' \<and> k \<noteq> ''commName'') recognized_hints"

text \<open>The calls of the backend's construction entry point, among the events.\<close>

fun is_construct :: "event \<Rightarrow> bool" where
  "is_construct (XcclCommInitRankConfig n u r c) = True"
| "is_construct e = False"

text \<open>A sequence of identifier exchanges in one process: each call is
  \<open>exchangeUniqueIdStore\<close> on some coordinator, in the world it meets, and leaves
  the process state to the next call. What a call throws is caught by its
  caller.\<close>

fun exchange_calls :: "(world \<times> bootstrap) list \<Rightarrow> process \<Rightarrow> process" where
  "exchange_calls [] p = p"
| "exchange_calls (c # cs) p = exchange_calls cs (snd (exchangeUniqueIdStore (fst c) (snd c) p))"

text \<open>The key of a store access.\<close>

fun store_key_of :: "event \<Rightarrow> string option" where
  "store_key_of (StoreSet h k v) = Some k"
| "store_key_of (StoreGet h k) = Some k"
| "store_key_of e = None"

text \<open>The number a list of decimal digits stands for.\<close>

definition digits_to_nat :: "nat list \<Rightarrow> nat" where
  "digits_to_nat ds = foldl (\<lambda>a d. 10 * a + d) 0 ds"

text \<open>The events of the closing synchronization: dropping the store reference,
  asking for the stream, the barrier all-reduce, synchronizing the stream.\<close>

fun is_teardown :: "event \<Rightarrow> bool" where
  "is_teardown (StoreReset h) = True"
| "is_teardown (XpuGetCurrentXPUStream d) = True"
| "is_teardown (XcclAllReduce s r n c st) = True"
| "is_teardown (XpuStreamSynchronize st) = True"
| "is_teardown e = False"

text \<open>A coordinator's life after construction: \<open>createXcclComm\<close> calls, each with
  the world it meets, its name and its hints. What a call throws is caught by its
  caller, and the coordinator is used again.\<close>

fun create_calls ::
  "(world \<times> string \<times> (string \<times> string) list) list \<Rightarrow> bootstrap \<Rightarrow> process \<Rightarrow> bootstrap \<times> process" where
  "create_calls [] b p = (b, p)"
| "create_calls (c # cs) b p =
     (let r = createXcclComm (fst c) b (fst (snd c)) (snd (snd c)) p
      in create_calls cs (fst (snd r)) (snd (snd r)))"


section \<open>Concrete collaborators\<close>

text \<open>One world, one coordinator and the state of a fresh process, for running
  the definitions on concrete inputs. In this world every collaborator succeeds,
  no environment variable is set, the identity has four bytes, and the process has
  rank 1 of 2.\<close>

definition example_world :: world where
  "example_world =
     \<lparr>query_ranksize = (1, 2),
      getenv = (\<lambda>k. None),
      xpu_getDeviceCount = (ZE_RESULT_SUCCESS, 4),
      xpu_setDevice = (\<lambda>d. ZE_RESULT_SUCCESS),
      xpu_malloc = (\<lambda>n. (ZE_RESULT_SUCCESS, 4096)),
      xpu_free = (\<lambda>h. ZE_RESULT_SUCCESS),
      xpu_getCurrentXPUStream = (\<lambda>d. 7),
      xpu_streamSynchronize = (\<lambda>h. ZE_RESULT_SUCCESS),
      xpu_getErrorString = (\<lambda>r. ''ze error''),
      xccl_getUniqueId = (onecclSuccess, [1, 2, 3, 4]),
      xccl_commInitRankConfig = (\<lambda>n u r c. (onecclSuccess, 99)),
      xccl_allReduce = (\<lambda>s r n c st. onecclSuccess),
      xccl_getErrorString = (\<lambda>r. ''xccl error''),
      store_set = (\<lambda>h k v. None),
      store_get = (\<lambda>h k. Inr [1, 2, 3, 4]),
      getStore = (\<lambda>b n t. Inr (Some 5)),
      sizeof_onecclUniqueId = 4,
      XCCL_CONFIG_INITIALIZER =
        \<lparr>blocking = 0, cgaClusterSize = 0, minCTAs = 0, maxCTAs = 0, netName = None,
         splitShare = 0, trafficClass = 0, commName = None, collnetEnable = 0,
         CTAPolicy = 0, shrinkShare = 0, nvlsCTAs = 0, nChannelsPerNetPeer = 0,
         nvlinkCentricSched = 0\<rparr>,
      kBackendName = ''xccl'',
      source_location = (\<lambda>l. ''TorchCommXCCLBootstrap.cpp:'' @ to_string (int l))\<rparr>"

definition example_bootstrap :: bootstrap where
  "example_bootstrap =
     \<lparr>timeout = 1000, store = None, created_internal_store = False, device = 1,
      rank = 1, comm_size = 2, uniqueid_xchg_method = ''auto'', barrier_buffer = 4096\<rparr>"

definition process_start :: process where
  "process_start = \<lparr>counter = 0, trace = []\<rparr>"



section \<open>Properties\<close>

subsection \<open>What the methods leave as it is\<close>

text \<open>What the methods leave as it is: \<open>exchangeUniqueId\<close>, \<open>cleanupTCPStore\<close> and
  so \<open>createXcclComm\<close> assign no member but \<open>store_\<close> and
  \<open>created_internal_store_\<close>; the destructor assigns \<open>barrier_buffer_\<close> only.\<close>

lemma c_rem_nonneg: "0 \<le> a \<Longrightarrow> 0 < b \<Longrightarrow> c_rem a b = Inr (a mod b)"
  by (simp add: c_rem_def INT_MIN_def sgn_if)

lemma exchangeUniqueId_frame:
  assumes "exchangeUniqueId w b name p = (r, b', p')"
  shows "timeout b' = timeout b \<and> device b' = device b \<and> rank b' = rank b \<and>
         comm_size b' = comm_size b \<and> uniqueid_xchg_method b' = uniqueid_xchg_method b \<and>
         barrier_buffer b' = barrier_buffer b"
  using assms
  by (auto simp: exchangeUniqueId_def exchangeUniqueIdTCPStore_def Let_def
        split: sum.splits if_splits)

lemma cleanupTCPStore_frame:
  assumes "cleanupTCPStore w b c p = (r, b', p')"
  shows "timeout b' = timeout b \<and> device b' = device b \<and> rank b' = rank b \<and>
         comm_size b' = comm_size b \<and> uniqueid_xchg_method b' = uniqueid_xchg_method b \<and>
         barrier_buffer b' = barrier_buffer b"
  using assms
  by (auto simp: cleanupTCPStore_def Let_def split: option.splits if_splits)

lemma createXcclComm_frame:
  assumes "createXcclComm w b name hints p = (r, b', p')"
  shows "timeout b' = timeout b \<and> device b' = device b \<and> rank b' = rank b \<and>
         comm_size b' = comm_size b \<and> uniqueid_xchg_method b' = uniqueid_xchg_method b \<and>
         barrier_buffer b' = barrier_buffer b"
proof -
  obtain x b1 p1 where x: "exchangeUniqueId w b name p = (x, b1, p1)"
    by (cases "exchangeUniqueId w b name p")
  note f1 = exchangeUniqueId_frame [OF x]
  show ?thesis
  proof (cases x)
    case (Inl e)
    with x assms f1 show ?thesis by (simp add: createXcclComm_def)
  next
    case (Inr uniqueId)
    obtain y p2 where y: "populateXcclConfigFromHints
        ((XCCL_CONFIG_INITIALIZER w)\<lparr>commName := Some (strdup name)\<rparr>) hints name p1 = (y, p2)"
      by (cases "populateXcclConfigFromHints
        ((XCCL_CONFIG_INITIALIZER w)\<lparr>commName := Some (strdup name)\<rparr>) hints name p1")
    show ?thesis
    proof (cases y)
      case (Inl e)
      with x Inr y assms f1 show ?thesis by (simp add: createXcclComm_def)
    next
      case c: (Inr config)
      let ?r = "xccl_commInitRankConfig w (comm_size b1) uniqueId (rank b1) config"
      let ?p3 = "emit (XcclCommInitRankConfig (comm_size b1) uniqueId (rank b1) config) p2"
      obtain z b2 p4 where z: "cleanupTCPStore w b1 (snd ?r) ?p3 = (z, b2, p4)"
        by (cases "cleanupTCPStore w b1 (snd ?r) ?p3")
      note f2 = cleanupTCPStore_frame [OF z]
      from x Inr y c z assms have "b' = b1 \<or> b' = b2"
        by (auto simp: createXcclComm_def Let_def split: if_splits sum.splits)
      with f1 f2 show ?thesis by auto
    qed
  qed
qed

lemma bootstrap_dtor_frame:
  assumes "bootstrap_dtor w b p = (r, b', p')"
  shows "device b' = device b \<and> rank b' = rank b \<and> store b' = store b \<and>
         created_internal_store b' = created_internal_store b"
  using assms
  by (auto simp: bootstrap_dtor_def Let_def split: option.splits if_splits)

subsection \<open>Store selection: the two configuration errors\<close>












subsection \<open>Identifier exchange on a rank other than 0\<close>

text \<open>
  C2. On a rank other than 0, \<open>createXcclComm\<close> reads the store under the key it
  generated, \<open>xccl_storekey_\<close> followed by the counter. If the value read does not
  have exactly \<open>sizeof(onecclUniqueId)\<close> bytes, the call throws
  \<open>Invalid XCCL unique ID size\<close>, and all it has done by then is the read of the
  store (after the registry lookup, when the coordinator had no store): the
  trace holds no \<open>getUniqueId\<close> and no \<open>commInitRankConfig\<close>. The first part is the
  coordinator with a store, the second the coordinator that gets its store from
  the registry.
\<close>

theorem createXcclComm_invalid_unique_id_size:
  assumes "rank b \<noteq> 0" and "counter p \<noteq> INT_MAX"
    and "key = getXCCLStoreKeyPrefix @ to_string (counter p)"
    and "length vec \<noteq> sizeof_onecclUniqueId w"
  shows "(store b = Some h \<and> store_get w h key = Inr vec \<longrightarrow>
            createXcclComm w b name hints p =
              (Inl (runtime_error ''Invalid XCCL unique ID size''), b,
               p\<lparr>counter := counter p + 1, trace := trace p @ [StoreGet h key]\<rparr>)) \<and>
         (store b = None \<and>
          (uniqueid_xchg_method b = ''auto'' \<or> uniqueid_xchg_method b = ''tcpstore'') \<and>
          getenv w ''MASTER_ADDR'' \<noteq> None \<and> getenv w ''MASTER_PORT'' \<noteq> None \<and>
          getStore w (kBackendName w) name (timeout b) = Inr (Some h) \<and>
          store_get w h key = Inr vec \<longrightarrow>
            createXcclComm w b name hints p =
              (Inl (runtime_error ''Invalid XCCL unique ID size''),
               b\<lparr>store := Some h, created_internal_store := True\<rparr>,
               p\<lparr>counter := counter p + 1,
                 trace := trace p @ [StoreManagerGetStore (kBackendName w) name (timeout b),
                                     StoreGet h key]\<rparr>))"
  using assms
  by (auto simp: createXcclComm_def exchangeUniqueId_def isTCPStoreEnabled_def
        exchangeUniqueIdTCPStore_def exchangeUniqueIdStore_def getXCCLStoreKey_def emit_def
        kUniqueidXchgMethodAuto_def kUniqueidXchgMethodTCPStore_def Let_def)

theorem createXcclComm_invalid_unique_id_size_witness:
  "createXcclComm (example_world\<lparr>store_get := (\<lambda>h k. Inr [1, 2, 3]), sizeof_onecclUniqueId := 16\<rparr>)
     (example_bootstrap\<lparr>store := Some 5\<rparr>) ''c'' [] process_start =
     (Inl (runtime_error ''Invalid XCCL unique ID size''), example_bootstrap\<lparr>store := Some 5\<rparr>,
      process_start\<lparr>counter := 1, trace := [StoreGet 5 ''xccl_storekey_0'']\<rparr>) \<and>
   createXcclComm (example_world\<lparr>getenv := (\<lambda>k. Some ''10.0.0.1''),
        store_get := (\<lambda>h k. Inr [1, 2, 3]), sizeof_onecclUniqueId := 16\<rparr>)
     example_bootstrap ''c'' [] process_start =
     (Inl (runtime_error ''Invalid XCCL unique ID size''),
      example_bootstrap\<lparr>store := Some 5, created_internal_store := True\<rparr>,
      process_start\<lparr>counter := 1,
        trace := [StoreManagerGetStore ''xccl'' ''c'' 1000, StoreGet 5 ''xccl_storekey_0'']\<rparr>)"
proof -
  have k: "''xccl_storekey_0'' = getXCCLStoreKeyPrefix @ to_string (counter process_start)"
    by code_simp
  have c: "counter process_start \<noteq> INT_MAX"
    by code_simp
  have r: "rank (example_bootstrap\<lparr>store := Some 5\<rparr>) \<noteq> 0" "rank example_bootstrap \<noteq> 0"
    by (simp_all add: example_bootstrap_def)
  show ?thesis
    using createXcclComm_invalid_unique_id_size
            [where b = "example_bootstrap\<lparr>store := Some 5\<rparr>" and p = process_start
               and w = "example_world\<lparr>store_get := (\<lambda>h k. Inr [1, 2, 3]), sizeof_onecclUniqueId := 16\<rparr>"
               and vec = "[1, 2, 3]" and h = 5 and name = "''c''" and hints = "[]", OF r(1) c k]
          createXcclComm_invalid_unique_id_size
            [where b = example_bootstrap and p = process_start
               and w = "example_world\<lparr>getenv := (\<lambda>k. Some ''10.0.0.1''),
                          store_get := (\<lambda>h k. Inr [1, 2, 3]), sizeof_onecclUniqueId := 16\<rparr>"
               and vec = "[1, 2, 3]" and h = 5 and name = "''c''" and hints = "[]", OF r(2) c k]
    by (simp add: example_bootstrap_def example_world_def process_start_def)
qed

subsection \<open>Hints\<close>

lemma hint_entry_unrecognized:
  "key \<notin> set recognized_hints \<Longrightarrow>
     hint_entry config key val name p = (Inr config, emit (unsupported_hint_warning key name) p)"
  by (simp add: hint_entry_def recognized_hints_def)

lemma int_hint_fst: "fst (int_hint name field val assign p) = fst (int_hint name field val assign p')"
  by (simp add: int_hint_def split: sum.splits)

lemma str_hint_fst: "fst (str_hint name field val assign p) = fst (str_hint name field val assign p')"
  by (simp add: str_hint_def)

lemma hint_entry_fst:
  "fst (hint_entry config key val name p) = fst (hint_entry config key val name p')"
  unfolding hint_entry_def
  by (simp add: int_hint_fst [of _ _ _ _ p p'] str_hint_fst [of _ _ _ _ p p'])

lemma populate_fst:
  "fst (populateXcclConfigFromHints config hints name p) =
   fst (populateXcclConfigFromHints config hints name p')"
proof (induction hints arbitrary: config p p')
  case Nil
  show ?case by simp
next
  case (Cons kv hints)
  obtain r q where h: "hint_entry config (fst kv) (snd kv) name p = (r, q)"
    by (cases "hint_entry config (fst kv) (snd kv) name p")
  obtain r' q' where h': "hint_entry config (fst kv) (snd kv) name p' = (r', q')"
    by (cases "hint_entry config (fst kv) (snd kv) name p'")
  from hint_entry_fst [of config "fst kv" "snd kv" name p p'] h h' have rr: "r' = r"
    by simp
  show ?case
  proof (cases r)
    case (Inl e)
    with h h' rr show ?thesis by simp
  next
    case (Inr c)
    with h h' rr Cons.IH [of c q q'] show ?thesis by simp
  qed
qed

lemma populate_append:
  "populateXcclConfigFromHints config (xs @ ys) name p =
     (case populateXcclConfigFromHints config xs name p of
        (Inl e, p') \<Rightarrow> (Inl e, p')
      | (Inr c, p') \<Rightarrow> populateXcclConfigFromHints c ys name p')"
  by (induction xs arbitrary: config p) (auto split: prod.splits sum.splits)


lemma int_hint_cases:
  "int_hint name field val assign p = (r, p') \<Longrightarrow>
     (\<exists>e. stoi val = Inl e \<and> r = Inl e \<and> p' = p) \<or>
     (\<exists>v m. stoi val = Inr v \<and> r = Inr (assign v) \<and> p' = emit (Log INFO m) p)"
  by (auto simp: int_hint_def split: sum.splits)

lemma str_hint_cases:
  "str_hint name field val assign p = (r, p') \<Longrightarrow>
     (\<exists>c m. r = Inr c \<and> p' = emit (Log INFO m) p)"
  by (auto simp: str_hint_def)


lemma hint_entry_shape:
  "(\<exists>f a. hint_entry config key val name p = int_hint name f val a p) \<or>
   (\<exists>f a. hint_entry config key val name p = str_hint name f val a p) \<or>
   hint_entry config key val name p = (Inr config, emit (unsupported_hint_warning key name) p)"
proof -
  define P where "P = (\<lambda>r. (\<exists>f a. r = int_hint name f val a p) \<or>
      (\<exists>f a. r = str_hint name f val a p) \<or>
      r = (Inr config, emit (unsupported_hint_warning key name) p))"
  have i: "\<And>f a. P (int_hint name f val a p)"
    unfolding P_def by blast
  have s: "\<And>f a. P (str_hint name f val a p)"
    unfolding P_def by blast
  have w: "P (Inr config, emit (unsupported_hint_warning key name) p)"
    unfolding P_def by blast
  have "P (hint_entry config key val name p)"
    unfolding hint_entry_def
    by (simp add: i s w)
  then show ?thesis
    unfolding P_def .
qed

lemma hint_entry_cases:
  assumes "hint_entry config key val name p = (r, p')"
  shows "(\<exists>e. stoi val = Inl e \<and> r = Inl e \<and> p' = p) \<or>
         (\<exists>c l m. r = Inr c \<and> p' = emit (Log l m) p)"
proof -
  consider (int) f a where "int_hint name f val a p = (r, p')"
    | (str) f a where "str_hint name f val a p = (r, p')"
    | (unknown) "(r, p') = (Inr config, emit (unsupported_hint_warning key name) p)"
    using hint_entry_shape [of config key val name p] assms by metis
  then show ?thesis
  proof cases
    case int
    from int_hint_cases [OF this] show ?thesis by blast
  next
    case str
    from str_hint_cases [OF this] show ?thesis by blast
  next
    case unknown
    then show ?thesis by (auto simp: unsupported_hint_warning_def)
  qed
qed

lemma hint_entry_integer:
  assumes "key \<in> set integer_hints"
  shows "\<exists>f a. hint_entry config key val name p = int_hint name f val a p"
proof -
  define P where "P = (\<lambda>r. \<exists>f a. r = int_hint name f val a p)"
  have i: "\<And>f a. P (int_hint name f val a p)"
    unfolding P_def by blast
  from assms have "key = ''blocking'' \<or> key = ''cgaClusterSize'' \<or> key = ''cga_cluster_size'' \<or>
      key = ''minCTAs'' \<or> key = ''min_ctas'' \<or> key = ''maxCTAs'' \<or> key = ''max_ctas'' \<or>
      key = ''splitShare'' \<or> key = ''split_share'' \<or> key = ''trafficClass'' \<or>
      key = ''traffic_class'' \<or> key = ''collnetEnable'' \<or> key = ''collnet_enable'' \<or>
      key = ''CTAPolicy'' \<or> key = ''cta_policy'' \<or> key = ''shrinkShare'' \<or>
      key = ''nvlsCTAs'' \<or> key = ''nvls_ctas'' \<or> key = ''nChannelsPerNetPeer'' \<or>
      key = ''n_channels_per_net_peer'' \<or> key = ''nvlinkCentricSched'' \<or>
      key = ''nvlink_centric_sched''"
    by (simp add: integer_hints_def recognized_hints_def)
  then have "P (hint_entry config key val name p)"
    by (elim disjE) (simp_all add: hint_entry_def i)
  then show ?thesis
    unfolding P_def .
qed

lemma hint_entry_integer_fails:
  assumes "key \<in> set integer_hints" and "stoi val = Inl e"
  shows "hint_entry config key val name p = (Inl e, p)"
  using hint_entry_integer [OF assms(1), of config val name p] assms(2)
  by (auto simp: int_hint_def)


lemma stoi_Inl: "stoi s = Inl e \<Longrightarrow> e = invalid_argument ''stoi'' \<or> e = out_of_range ''stoi''"
  by (auto simp: stoi_def Let_def split: if_splits)

lemma populate_malformed:
  assumes "(k, v) \<in> set hints" and "k \<in> set integer_hints" and "stoi v = Inl e"
  shows "\<exists>e' p'. populateXcclConfigFromHints config hints name p = (Inl e', p') \<and>
           (e' = invalid_argument ''stoi'' \<or> e' = out_of_range ''stoi'')"
  using assms(1)
proof (induction hints arbitrary: config p)
  case Nil
  then show ?case by simp
next
  case (Cons kv hints)
  obtain r q where h: "hint_entry config (fst kv) (snd kv) name p = (r, q)"
    by (cases "hint_entry config (fst kv) (snd kv) name p")
  from hint_entry_cases [OF h]
  consider (fail) e0 where "stoi (snd kv) = Inl e0" "r = Inl e0" "q = p"
    | (ok) c where "r = Inr c"
    by blast
  then show ?case
  proof cases
    case fail
    with h stoi_Inl [of "snd kv" e0] show ?thesis by simp
  next
    case ok
    have "kv \<noteq> (k, v)"
    proof
      assume "kv = (k, v)"
      with hint_entry_integer_fails [OF assms(2) assms(3), of config name p] h ok
      show False by simp
    qed
    with Cons.prems have "(k, v) \<in> set hints" by auto
    from Cons.IH [OF this, of c q] h ok show ?thesis by simp
  qed
qed

lemma hint_entry_logs_only:
  assumes "\<And>l m. \<not> P (Log l m)"
  shows "filter P (trace (snd (hint_entry config key val name p))) = filter P (trace p)"
proof -
  obtain r q where h: "hint_entry config key val name p = (r, q)"
    by (cases "hint_entry config key val name p")
  from hint_entry_cases [OF h] assms show ?thesis
    by (auto simp: h emit_def)
qed

lemma populate_logs_only:
  assumes "\<And>l m. \<not> P (Log l m)"
  shows "filter P (trace (snd (populateXcclConfigFromHints config hints name p))) =
         filter P (trace p)"
proof (induction hints arbitrary: config p)
  case Nil
  show ?case by simp
next
  case (Cons kv hints)
  obtain r q where h: "hint_entry config (fst kv) (snd kv) name p = (r, q)"
    by (cases "hint_entry config (fst kv) (snd kv) name p")
  from hint_entry_logs_only [of P config "fst kv" "snd kv" name p] assms h
  have q: "filter P (trace q) = filter P (trace p)" by simp
  show ?case
  proof (cases r)
    case (Inl e)
    with h q show ?thesis by simp
  next
    case (Inr c)
    with h q Cons.IH [of c q] show ?thesis by simp
  qed
qed

lemma hint_entry_trace:
  "\<exists>es. trace (snd (hint_entry config key val name p)) = trace p @ es \<and>
     (\<forall>e \<in> set es. \<not> is_construct e)"
proof -
  obtain r q where h: "hint_entry config key val name p = (r, q)"
    by (cases "hint_entry config key val name p")
  from hint_entry_cases [OF h]
  consider "q = p" | l m where "q = emit (Log l m) p"
    by blast
  then show ?thesis
  proof cases
    case 1
    with h show ?thesis by simp
  next
    case 2
    with h have "trace (snd (hint_entry config key val name p)) = trace p @ [Log l m]"
      by (simp add: emit_def)
    then show ?thesis by simp
  qed
qed

lemma populate_trace:
  "\<exists>es. trace (snd (populateXcclConfigFromHints config hints name p)) = trace p @ es \<and>
     (\<forall>e \<in> set es. \<not> is_construct e)"
proof (induction hints arbitrary: config p)
  case Nil
  show ?case by simp
next
  case (Cons kv hints)
  obtain r q where h: "hint_entry config (fst kv) (snd kv) name p = (r, q)"
    by (cases "hint_entry config (fst kv) (snd kv) name p")
  from hint_entry_trace [of config "fst kv" "snd kv" name p] h
  obtain es where q: "trace q = trace p @ es" and es: "\<forall>e \<in> set es. \<not> is_construct e"
    by auto
  show ?case
  proof (cases r)
    case (Inl e)
    with h q es show ?thesis by simp
  next
    case (Inr c)
    from Cons.IH [of c q]
    obtain fs where f: "trace (snd (populateXcclConfigFromHints c hints name q)) = trace q @ fs"
      and fs: "\<forall>e \<in> set fs. \<not> is_construct e"
      by blast
    from h Inr f q have "trace (snd (populateXcclConfigFromHints config (kv # hints) name p)) =
        trace p @ (es @ fs)"
      by simp
    moreover from es fs have "\<forall>e \<in> set (es @ fs). \<not> is_construct e" by auto
    ultimately show ?thesis by blast
  qed
qed

lemma exchangeUniqueIdStore_trace:
  "\<exists>es. trace (snd (exchangeUniqueIdStore w b p)) = trace p @ es \<and>
     (\<forall>e \<in> set es. \<not> is_construct e)"
  by (simp add: exchangeUniqueIdStore_def getXCCLStoreKey_def emit_def Let_def
        split: option.splits sum.splits)

lemma exchangeUniqueId_trace:
  "\<exists>es. trace (snd (snd (exchangeUniqueId w b name p))) = trace p @ es \<and>
     (\<forall>e \<in> set es. \<not> is_construct e)"
proof -
  have s: "\<And>b' q. \<exists>fs. trace (snd (exchangeUniqueIdStore w b' q)) = trace q @ fs \<and>
      (\<forall>e \<in> set fs. \<not> is_construct e)"
    by (rule exchangeUniqueIdStore_trace)
  have t: "\<And>b' (q :: process) e0. trace q = trace p @ [e0] \<Longrightarrow> \<not> is_construct e0 \<Longrightarrow>
      \<exists>es. trace (snd (exchangeUniqueIdStore w b' q)) = trace p @ es \<and>
        (\<forall>e \<in> set es. \<not> is_construct e)"
  proof -
    fix b' and q :: process and e0
    assume q: "trace q = trace p @ [e0]" and e0: "\<not> is_construct e0"
    from s [of b' q] obtain fs where
      f: "trace (snd (exchangeUniqueIdStore w b' q)) = trace q @ fs"
      and fs: "\<forall>e \<in> set fs. \<not> is_construct e" by blast
    from f q have "trace (snd (exchangeUniqueIdStore w b' q)) = trace p @ (e0 # fs)" by simp
    moreover from e0 fs have "\<forall>e \<in> set (e0 # fs). \<not> is_construct e" by simp
    ultimately show "\<exists>es. trace (snd (exchangeUniqueIdStore w b' q)) = trace p @ es \<and>
        (\<forall>e \<in> set es. \<not> is_construct e)" by blast
  qed
  show ?thesis
  proof (cases "store b")
    case (Some h)
    with s [of b p] show ?thesis by (simp add: exchangeUniqueId_def Let_def)
  next
    case None
    show ?thesis
    proof (cases "getStore w (kBackendName w) name (timeout b)")
      case (Inl e)
      with None show ?thesis
        by (simp add: exchangeUniqueId_def exchangeUniqueIdTCPStore_def Let_def emit_def)
    next
      case (Inr st)
      let ?q = "emit (StoreManagerGetStore (kBackendName w) name (timeout b)) p"
      have "trace ?q = trace p @ [StoreManagerGetStore (kBackendName w) name (timeout b)]"
        by (simp add: emit_def)
      from t [OF this, of "b\<lparr>store := st, created_internal_store := True\<rparr>"] None Inr
      show ?thesis
        by (simp add: exchangeUniqueId_def exchangeUniqueIdTCPStore_def Let_def)
    qed
  qed
qed

text \<open>
  C4. First part: an entry whose key is none of the recognized keys does not end
  the pass. The entries before it are processed; unless one of them threw, a
  warning is logged whose message is \<open>XCCL hint '\<close>, the key,
  \<open>' is not supported in this XCCL version, ignoring for comm '\<close>, the communicator
  name and \<open>'\<close>; the configuration stays as the entries before left it, and the
  entries after are processed from there. The configuration the pass ends with (or
  the exception) is the one of the pass without that entry.
  Second part: if some entry has a key of an integer field and a value on which
  \<open>std::stoi\<close> throws, \<open>createXcclComm\<close> throws, and the events the call adds to
  the trace contain no call of \<open>commInitRankConfig\<close>. When the identifier
  exchange before the pass succeeded, the exception is one of \<open>std::stoi\<close>:
  \<open>std::invalid_argument\<close> or \<open>std::out_of_range\<close>. (\<open>std::stoi\<close> accepts a number
  followed by other characters: \<open>12abc\<close> is 12.)
\<close>

theorem hints_unknown_key_and_malformed_integer:
  "(key \<notin> set recognized_hints \<longrightarrow>
      populateXcclConfigFromHints config (before @ (key, val) # after) name p =
        (case populateXcclConfigFromHints config before name p of
           (Inl e, p') \<Rightarrow> (Inl e, p')
         | (Inr c, p') \<Rightarrow>
             populateXcclConfigFromHints c after name
               (emit (Log WARNING
                  (''XCCL hint '' @ [CHR 0x27] @ key @ [CHR 0x27] @
                   '' is not supported in this XCCL version, ignoring for comm '' @
                   [CHR 0x27] @ name @ [CHR 0x27])) p')) \<and>
      fst (populateXcclConfigFromHints config (before @ (key, val) # after) name p) =
        fst (populateXcclConfigFromHints config (before @ after) name p)) \<and>
   ((k, v) \<in> set hints \<and> k \<in> set integer_hints \<and> stoi v = Inl e \<longrightarrow>
      (\<exists>e' b' p' es. createXcclComm w b name hints p = (Inl e', b', p') \<and>
          trace p' = trace p @ es \<and>
          (\<forall>n u r c. XcclCommInitRankConfig n u r c \<notin> set es) \<and>
          (\<forall>uniqueId b1 p1. exchangeUniqueId w b name p = (Inr uniqueId, b1, p1) \<longrightarrow>
             e' = invalid_argument ''stoi'' \<or> e' = out_of_range ''stoi'')))"
proof (intro conjI impI)
  assume u: "key \<notin> set recognized_hints"
  note h = hint_entry_unrecognized [OF u, unfolded unsupported_hint_warning_def]
  show "populateXcclConfigFromHints config (before @ (key, val) # after) name p =
        (case populateXcclConfigFromHints config before name p of
           (Inl e, p') \<Rightarrow> (Inl e, p')
         | (Inr c, p') \<Rightarrow>
             populateXcclConfigFromHints c after name
               (emit (Log WARNING
                  (''XCCL hint '' @ [CHR 0x27] @ key @ [CHR 0x27] @
                   '' is not supported in this XCCL version, ignoring for comm '' @
                   [CHR 0x27] @ name @ [CHR 0x27])) p'))"
    by (simp add: populate_append h split: prod.splits sum.splits)
  show "fst (populateXcclConfigFromHints config (before @ (key, val) # after) name p) =
        fst (populateXcclConfigFromHints config (before @ after) name p)"
  proof -
    obtain r q where b: "populateXcclConfigFromHints config before name p = (r, q)"
      by (cases "populateXcclConfigFromHints config before name p")
    show ?thesis
    proof (cases r)
      case (Inl e0)
      with b show ?thesis by (simp add: populate_append)
    next
      case (Inr c)
      with b populate_fst [of c after name "emit (unsupported_hint_warning key name) q" q]
      show ?thesis by (simp add: populate_append hint_entry_unrecognized [OF u])
    qed
  qed
next
  assume a: "(k, v) \<in> set hints \<and> k \<in> set integer_hints \<and> stoi v = Inl e"
  obtain r b1 p1 where x: "exchangeUniqueId w b name p = (r, b1, p1)"
    by (cases "exchangeUniqueId w b name p")
  from exchangeUniqueId_trace [of w b name p] x
  obtain es where t1: "trace p1 = trace p @ es" and es: "\<forall>e \<in> set es. \<not> is_construct e"
    by auto
  have nc: "\<And>fs. \<forall>e \<in> set fs. \<not> is_construct e \<Longrightarrow>
      \<forall>n u r c. XcclCommInitRankConfig n u r c \<notin> set fs"
    by fastforce
  show "\<exists>e' b' p' es. createXcclComm w b name hints p = (Inl e', b', p') \<and>
          trace p' = trace p @ es \<and>
          (\<forall>n u r c. XcclCommInitRankConfig n u r c \<notin> set es) \<and>
          (\<forall>uniqueId b1 p1. exchangeUniqueId w b name p = (Inr uniqueId, b1, p1) \<longrightarrow>
             e' = invalid_argument ''stoi'' \<or> e' = out_of_range ''stoi'')"
  proof (cases r)
    case (Inl e0)
    with x have "createXcclComm w b name hints p = (Inl e0, b1, p1)"
      by (simp add: createXcclComm_def)
    with x Inl t1 nc [OF es] show ?thesis by auto
  next
    case (Inr uniqueId)
    let ?config = "(XCCL_CONFIG_INITIALIZER w)\<lparr>commName := Some (strdup name)\<rparr>"
    from a populate_malformed [of k v hints e ?config name p1]
    obtain e' p2 where m: "populateXcclConfigFromHints ?config hints name p1 = (Inl e', p2)"
      and e': "e' = invalid_argument ''stoi'' \<or> e' = out_of_range ''stoi''"
      by blast
    from populate_trace [of ?config hints name p1] m
    obtain fs where t2: "trace p2 = trace p1 @ fs" and fs: "\<forall>e \<in> set fs. \<not> is_construct e"
      by auto
    from t1 t2 have t: "trace p2 = trace p @ (es @ fs)" by simp
    from es fs have "\<forall>e \<in> set (es @ fs). \<not> is_construct e" by auto
    from nc [OF this] have n: "\<forall>n u r c. XcclCommInitRankConfig n u r c \<notin> set (es @ fs)" .
    from x Inr m have "createXcclComm w b name hints p = (Inl e', b1, p2)"
      by (simp add: createXcclComm_def)
    with t n e' show ?thesis by blast
  qed
qed

theorem hints_unknown_key_and_malformed_integer_witness:
  "''bogus_key'' \<notin> set recognized_hints \<and>
   populateXcclConfigFromHints (XCCL_CONFIG_INITIALIZER example_world)
       ([(''blocking'', ''1'')] @ (''bogus_key'', ''x'') # []) ''c'' process_start =
     (case populateXcclConfigFromHints (XCCL_CONFIG_INITIALIZER example_world)
             [(''blocking'', ''1'')] ''c'' process_start of
        (Inl e, p') \<Rightarrow> (Inl e, p')
      | (Inr c, p') \<Rightarrow>
          populateXcclConfigFromHints c [] ''c''
            (emit (Log WARNING
               (''XCCL hint '' @ [CHR 0x27] @ ''bogus_key'' @ [CHR 0x27] @
                '' is not supported in this XCCL version, ignoring for comm '' @
                [CHR 0x27] @ ''c'' @ [CHR 0x27])) p')) \<and>
   fst (populateXcclConfigFromHints (XCCL_CONFIG_INITIALIZER example_world)
          ([(''blocking'', ''1'')] @ (''bogus_key'', ''x'') # []) ''c'' process_start) =
   fst (populateXcclConfigFromHints (XCCL_CONFIG_INITIALIZER example_world)
          ([(''blocking'', ''1'')] @ []) ''c'' process_start) \<and>
   populateXcclConfigFromHints (XCCL_CONFIG_INITIALIZER example_world)
          [(''blocking'', ''1''), (''bogus_key'', ''x'')] ''c'' process_start =
     (Inr ((XCCL_CONFIG_INITIALIZER example_world)\<lparr>blocking := 1\<rparr>),
      process_start\<lparr>trace :=
        [Log INFO ''[comm=c] Setting config.blocking=1'',
         Log WARNING
               (''XCCL hint '' @ [CHR 0x27] @ ''bogus_key'' @ [CHR 0x27] @
                '' is not supported in this XCCL version, ignoring for comm '' @
                [CHR 0x27] @ ''c'' @ [CHR 0x27])]\<rparr>) \<and>
   (''min_ctas'', ''abc'') \<in> set [(''min_ctas'', ''abc'')] \<and>
   ''min_ctas'' \<in> set integer_hints \<and>
   stoi ''abc'' = Inl (invalid_argument ''stoi'') \<and>
   (\<exists>e' b' p' es.
      createXcclComm (example_world\<lparr>getenv := (\<lambda>k. Some ''10.0.0.1'')\<rparr>) example_bootstrap ''c''
        [(''min_ctas'', ''abc'')] process_start = (Inl e', b', p') \<and>
      trace p' = trace process_start @ es \<and>
      (\<forall>n u r c. XcclCommInitRankConfig n u r c \<notin> set es) \<and>
      (\<forall>uniqueId b1 p1.
         exchangeUniqueId (example_world\<lparr>getenv := (\<lambda>k. Some ''10.0.0.1'')\<rparr>) example_bootstrap ''c'' process_start =
           (Inr uniqueId, b1, p1) \<longrightarrow>
         e' = invalid_argument ''stoi'' \<or> e' = out_of_range ''stoi'')) \<and>
   createXcclComm (example_world\<lparr>getenv := (\<lambda>k. Some ''10.0.0.1'')\<rparr>) example_bootstrap ''c''
        [(''min_ctas'', ''abc'')] process_start =
     (Inl (invalid_argument ''stoi''),
      example_bootstrap\<lparr>store := Some 5, created_internal_store := True\<rparr>,
      process_start\<lparr>counter := 1,
        trace := [StoreManagerGetStore ''xccl'' ''c'' 1000, StoreGet 5 ''xccl_storekey_0'']\<rparr>)"
proof -
  have u: "''bogus_key'' \<notin> set recognized_hints"
    by code_simp
  have m: "(''min_ctas'', ''abc'') \<in> set [(''min_ctas'', ''abc'')] \<and>
   ''min_ctas'' \<in> set integer_hints \<and>
   stoi ''abc'' = Inl (invalid_argument ''stoi'')"
    by code_simp
  have v1: "populateXcclConfigFromHints (XCCL_CONFIG_INITIALIZER example_world)
          [(''blocking'', ''1''), (''bogus_key'', ''x'')] ''c'' process_start =
     (Inr ((XCCL_CONFIG_INITIALIZER example_world)\<lparr>blocking := 1\<rparr>),
      process_start\<lparr>trace :=
        [Log INFO ''[comm=c] Setting config.blocking=1'',
         Log WARNING
               (''XCCL hint '' @ [CHR 0x27] @ ''bogus_key'' @ [CHR 0x27] @
                '' is not supported in this XCCL version, ignoring for comm '' @
                [CHR 0x27] @ ''c'' @ [CHR 0x27])]\<rparr>)"
    by code_simp
  have v2: "createXcclComm (example_world\<lparr>getenv := (\<lambda>k. Some ''10.0.0.1'')\<rparr>) example_bootstrap ''c''
        [(''min_ctas'', ''abc'')] process_start =
     (Inl (invalid_argument ''stoi''),
      example_bootstrap\<lparr>store := Some 5, created_internal_store := True\<rparr>,
      process_start\<lparr>counter := 1,
        trace := [StoreManagerGetStore ''xccl'' ''c'' 1000, StoreGet 5 ''xccl_storekey_0'']\<rparr>)"
    by code_simp
  note t = hints_unknown_key_and_malformed_integer
      [where key = "''bogus_key''" and val = "''x''" and before = "[(''blocking'', ''1'')]"
         and after = "[]" and config = "XCCL_CONFIG_INITIALIZER example_world"
         and name = "''c''" and p = process_start
         and k = "''min_ctas''" and v = "''abc''" and hints = "[(''min_ctas'', ''abc'')]"
         and e = "invalid_argument ''stoi''" and b = example_bootstrap
         and w = "example_world\<lparr>getenv := (\<lambda>k. Some ''10.0.0.1'')\<rparr>"]
  note a0 = t [THEN conjunct1, THEN mp, OF u, THEN conjunct1]
  note a1 = t [THEN conjunct1, THEN mp, OF u, THEN conjunct2]
  note a2 = t [THEN conjunct2, THEN mp, OF m]
  show ?thesis
    by (intro conjI) (rule u a0 a1 v1 m [THEN conjunct1] m [THEN conjunct2, THEN conjunct1]
        m [THEN conjunct2, THEN conjunct2] a2 v2)+
qed

text \<open>
  C3 (the code differs from it). The chain compares the keys of three fields with
  the camelCase spelling only: \<open>net_name\<close>, \<open>comm_name\<close> and \<open>shrink_share\<close> reach
  the last branch, which logs the warning and leaves the configuration as it is,
  while \<open>netName\<close>, \<open>commName\<close> and \<open>shrinkShare\<close> assign their field. The ten
  other fields with a name of several words have both spellings: either one runs
  the same branch.
\<close>

theorem hint_entry_snake_case_missing:
  "hint_entry config ''net_name'' val name p =
     (Inr config, emit (unsupported_hint_warning ''net_name'' name) p) \<and>
   hint_entry config ''comm_name'' val name p =
     (Inr config, emit (unsupported_hint_warning ''comm_name'' name) p) \<and>
   hint_entry config ''shrink_share'' val name p =
     (Inr config, emit (unsupported_hint_warning ''shrink_share'' name) p) \<and>
   hint_entry config ''netName'' val name p =
     str_hint name ''netName'' val (\<lambda>v. config\<lparr>netName := v\<rparr>) p \<and>
   hint_entry config ''commName'' val name p =
     str_hint name ''commName'' val (\<lambda>v. config\<lparr>commName := v\<rparr>) p \<and>
   hint_entry config ''shrinkShare'' val name p =
     int_hint name ''shrinkShare'' val (\<lambda>v. config\<lparr>shrinkShare := v\<rparr>) p \<and>
   hint_entry config ''cga_cluster_size'' val name p = hint_entry config ''cgaClusterSize'' val name p \<and>
   hint_entry config ''min_ctas'' val name p = hint_entry config ''minCTAs'' val name p \<and>
   hint_entry config ''max_ctas'' val name p = hint_entry config ''maxCTAs'' val name p \<and>
   hint_entry config ''split_share'' val name p = hint_entry config ''splitShare'' val name p \<and>
   hint_entry config ''traffic_class'' val name p = hint_entry config ''trafficClass'' val name p \<and>
   hint_entry config ''collnet_enable'' val name p = hint_entry config ''collnetEnable'' val name p \<and>
   hint_entry config ''cta_policy'' val name p = hint_entry config ''CTAPolicy'' val name p \<and>
   hint_entry config ''nvls_ctas'' val name p = hint_entry config ''nvlsCTAs'' val name p \<and>
   hint_entry config ''n_channels_per_net_peer'' val name p =
     hint_entry config ''nChannelsPerNetPeer'' val name p \<and>
   hint_entry config ''nvlink_centric_sched'' val name p =
     hint_entry config ''nvlinkCentricSched'' val name p"
  by (simp add: hint_entry_def)

subsection \<open>Store keys\<close>

text \<open>\<open>std::to_string\<close> gives different numbers different strings.\<close>

lemma digits_to_nat_decimal_digits: "digits_to_nat (decimal_digits n) = n"
proof (induction n rule: decimal_digits.induct)
  case (1 n)
  show ?case
  proof (cases "n < 10")
    case True
    then show ?thesis by (simp add: decimal_digits.simps [of n] digits_to_nat_def)
  next
    case False
    with "1" have "digits_to_nat (decimal_digits (n div 10)) = n div 10" by simp
    with False show ?thesis
      by (simp add: decimal_digits.simps [of n] digits_to_nat_def)
  qed
qed

lemma decimal_digits_inj: "decimal_digits m = decimal_digits n \<Longrightarrow> m = n"
  by (metis digits_to_nat_decimal_digits)

lemma decimal_digits_less: "d \<in> set (decimal_digits n) \<Longrightarrow> d < 10"
proof (induction n rule: decimal_digits.induct)
  case (1 n)
  then show ?case
    by (cases "n < 10") (auto simp: decimal_digits.simps [of n])
qed

lemma decimal_digits_not_Nil: "decimal_digits n \<noteq> []"
  by (simp add: decimal_digits.simps [of n])

lemma of_char_digit_char: "d < 10 \<Longrightarrow> (of_char (digit_char d) :: nat) = 48 + d"
  by (simp add: digit_char_def)

lemma digit_char_inverse:
  "\<forall>d \<in> set zs. d < 10 \<Longrightarrow> map (\<lambda>c. (of_char c :: nat) - 48) (map digit_char zs) = zs"
  by (induction zs) (simp_all add: of_char_digit_char)

lemma digit_chars_inj:
  assumes "map digit_char xs = map digit_char ys"
    and "\<forall>d \<in> set xs. d < 10" and "\<forall>d \<in> set ys. d < 10"
  shows "xs = ys"
  using assms digit_char_inverse [of xs] digit_char_inverse [of ys] by metis

lemma nat_string_inj:
  "map digit_char (decimal_digits m) = map digit_char (decimal_digits n) \<Longrightarrow> m = n"
  using digit_chars_inj [of "decimal_digits m" "decimal_digits n"]
  by (auto dest: decimal_digits_less decimal_digits_inj)

lemma nat_string_no_minus:
  "map digit_char (decimal_digits m) \<noteq> CHR ''-'' # s"
proof
  assume a: "map digit_char (decimal_digits m) = CHR ''-'' # s"
  then obtain d ds where d: "decimal_digits m = d # ds" and c: "digit_char d = CHR ''-''"
    by (cases "decimal_digits m") auto
  from d have "d < 10"
    using decimal_digits_less [of d m] by simp
  from of_char_digit_char [OF this] c show False by simp
qed

lemma to_string_inj: "to_string i = to_string j \<Longrightarrow> i = j"
proof -
  assume e: "to_string i = to_string j"
  consider (nn) "i < 0" "j < 0" | (np) "i < 0" "0 \<le> j" | (pn) "0 \<le> i" "j < 0" | (pp) "0 \<le> i" "0 \<le> j"
    by linarith
  then show ?thesis
  proof cases
    case nn
    with e have "nat (- i) = nat (- j)" by (simp add: to_string_def nat_string_inj)
    with nn show ?thesis by simp
  next
    case np
    with e have "map digit_char (decimal_digits (nat j)) =
        CHR ''-'' # map digit_char (decimal_digits (nat (- i)))"
      by (simp add: to_string_def)
    with nat_string_no_minus [of "nat j" "map digit_char (decimal_digits (nat (- i)))"]
    show ?thesis by simp
  next
    case pn
    with e nat_string_no_minus [of "nat i"] show ?thesis by (simp add: to_string_def)
  next
    case pp
    with e have "nat i = nat j" by (simp add: to_string_def nat_string_inj)
    with pp show ?thesis by simp
  qed
qed

lemma exchangeUniqueIdStore_counter:
  "counter p \<noteq> INT_MAX \<Longrightarrow> counter (snd (exchangeUniqueIdStore w b p)) = counter p + 1"
  by (simp add: exchangeUniqueIdStore_def getXCCLStoreKey_def emit_def Let_def
        split: option.splits sum.splits)

lemma exchangeUniqueIdStore_keys:
  "\<exists>es. trace (snd (exchangeUniqueIdStore w b p)) = trace p @ es \<and>
     (\<forall>e \<in> set es. store_key_of e = None \<or>
        store_key_of e = Some (getXCCLStoreKeyPrefix @ to_string (counter p)))"
  by (simp add: exchangeUniqueIdStore_def getXCCLStoreKey_def emit_def Let_def
        split: option.splits sum.splits)

lemma exchange_calls_snoc:
  "exchange_calls (cs @ [c]) p = snd (exchangeUniqueIdStore (fst c) (snd c) (exchange_calls cs p))"
  by (induction cs arbitrary: p) simp_all

lemma exchange_calls_counter:
  "counter p + int (length cs) \<le> INT_MAX \<Longrightarrow>
     counter (exchange_calls cs p) = counter p + int (length cs)"
proof (induction cs arbitrary: p)
  case Nil
  show ?case by simp
next
  case (Cons c cs)
  from Cons.prems have n: "counter p \<noteq> INT_MAX" by simp
  let ?q = "snd (exchangeUniqueIdStore (fst c) (snd c) p)"
  from exchangeUniqueIdStore_counter [OF n] have q: "counter ?q = counter p + 1" .
  with Cons.prems have "counter ?q + int (length cs) \<le> INT_MAX" by simp
  from Cons.IH [OF this] q show ?case by simp
qed


text \<open>
  C5. Take any sequence of identifier exchanges in one process, on any
  coordinators, that leaves the \<open>int\<close> counter within its range (from the initial
  0 that is up to \<open>INT_MAX\<close> calls; the increment after that is undefined
  behaviour). Then the counter ends up larger by the number of calls. The call
  number \<open>i\<close> finds the counter at its start value plus \<open>i\<close>, generates the key
  \<open>xccl_storekey_\<close> followed by that number and increments the counter by one, and
  every store access it makes uses that key. The keys of two different calls
  differ, and their numeric suffixes increase with the call order.
\<close>

theorem store_keys_fresh_and_increasing:
  assumes "counter p + int (length calls) \<le> INT_MAX"
  shows "counter (exchange_calls calls p) = counter p + int (length calls) \<and>
     (\<forall>i. i < length calls \<longrightarrow>
        counter (exchange_calls (take i calls) p) = counter p + int i \<and>
        getXCCLStoreKey (exchange_calls (take i calls) p) =
          (Inr (getXCCLStoreKeyPrefix @ to_string (counter p + int i)),
           (exchange_calls (take i calls) p)\<lparr>counter := counter p + int i + 1\<rparr>) \<and>
        (\<exists>es. trace (exchange_calls (take (Suc i) calls) p) =
                 trace (exchange_calls (take i calls) p) @ es \<and>
              (\<forall>e \<in> set es. store_key_of e = None \<or>
                 store_key_of e = Some (getXCCLStoreKeyPrefix @ to_string (counter p + int i))))) \<and>
     (\<forall>i j. i < j \<longrightarrow>
        getXCCLStoreKeyPrefix @ to_string (counter p + int i) \<noteq>
        getXCCLStoreKeyPrefix @ to_string (counter p + int j) \<and>
        counter p + int i < counter p + int j)"
proof (intro conjI allI impI)
  show "counter (exchange_calls calls p) = counter p + int (length calls)"
    using assms by (rule exchange_calls_counter)
next
  fix i assume i: "i < length calls"
  let ?q = "exchange_calls (take i calls) p"
  from i assms have "counter p + int (length (take i calls)) \<le> INT_MAX" by simp
  from exchange_calls_counter [OF this] i
  show c: "counter ?q = counter p + int i" by simp
  from i assms have "counter p + int i < INT_MAX" by simp
  with c show "getXCCLStoreKey ?q =
      (Inr (getXCCLStoreKeyPrefix @ to_string (counter p + int i)),
       ?q\<lparr>counter := counter p + int i + 1\<rparr>)"
    by (simp add: getXCCLStoreKey_def)
  from i have "take (Suc i) calls = take i calls @ [calls ! i]"
    by (rule take_Suc_conv_app_nth)
  then have "exchange_calls (take (Suc i) calls) p =
      snd (exchangeUniqueIdStore (fst (calls ! i)) (snd (calls ! i)) ?q)"
    by (simp add: exchange_calls_snoc)
  with exchangeUniqueIdStore_keys [of "fst (calls ! i)" "snd (calls ! i)" ?q] c
  show "\<exists>es. trace (exchange_calls (take (Suc i) calls) p) = trace ?q @ es \<and>
      (\<forall>e \<in> set es. store_key_of e = None \<or>
         store_key_of e = Some (getXCCLStoreKeyPrefix @ to_string (counter p + int i)))"
    by simp
next
  fix i j :: nat assume "i < j"
  then show "getXCCLStoreKeyPrefix @ to_string (counter p + int i) \<noteq>
      getXCCLStoreKeyPrefix @ to_string (counter p + int j)"
    by (auto dest: to_string_inj)
next
  fix i j :: nat assume "i < j"
  then show "counter p + int i < counter p + int j" by simp
qed

theorem store_keys_fresh_and_increasing_witness:
  "counter process_start +
     int (length [(example_world, example_bootstrap\<lparr>store := Some 5\<rparr>),
                  (example_world, example_bootstrap\<lparr>store := Some 5, rank := 0\<rparr>)]) \<le> INT_MAX \<and>
   counter (exchange_calls [(example_world, example_bootstrap\<lparr>store := Some 5\<rparr>),
                            (example_world, example_bootstrap\<lparr>store := Some 5, rank := 0\<rparr>)]
              process_start) =
     counter process_start +
     int (length [(example_world, example_bootstrap\<lparr>store := Some 5\<rparr>),
                  (example_world, example_bootstrap\<lparr>store := Some 5, rank := 0\<rparr>)]) \<and>
   exchange_calls [(example_world, example_bootstrap\<lparr>store := Some 5\<rparr>),
                   (example_world, example_bootstrap\<lparr>store := Some 5, rank := 0\<rparr>)]
     process_start =
     \<lparr>counter = 2,
      trace = [StoreGet 5 ''xccl_storekey_0'', XcclGetUniqueId,
               StoreSet 5 ''xccl_storekey_1'' [1, 2, 3, 4]]\<rparr>"
proof -
  have h: "counter process_start +
     int (length [(example_world, example_bootstrap\<lparr>store := Some 5\<rparr>),
                  (example_world, example_bootstrap\<lparr>store := Some 5, rank := 0\<rparr>)]) \<le> INT_MAX"
    by code_simp
  have v: "exchange_calls [(example_world, example_bootstrap\<lparr>store := Some 5\<rparr>),
                   (example_world, example_bootstrap\<lparr>store := Some 5, rank := 0\<rparr>)]
     process_start =
     \<lparr>counter = 2,
      trace = [StoreGet 5 ''xccl_storekey_0'', XcclGetUniqueId,
               StoreSet 5 ''xccl_storekey_1'' [1, 2, 3, 4]]\<rparr>"
    by code_simp
  from store_keys_fresh_and_increasing [OF h] h v show ?thesis
    by blast
qed

subsection \<open>Device assignment\<close>

lemma sint_device_index: "0 \<le> x \<Longrightarrow> x < 128 \<Longrightarrow> sint (word_of_int x :: DeviceIndex) = x"
  by (simp add: signed_of_int signed_take_bit_int_eq_self)

text \<open>
  C6 (amended). A coordinator is constructed with the device index \<open>-1\<close>, on a
  process of rank \<open>r\<close> (not negative, as a rank is), and the Device API reports a
  device count greater than 0. The constructor computes \<open>r mod deviceCount\<close> and
  stores it in the device member, whose index has eight bits: the member holds the
  remainder converted to \<open>DeviceIndex\<close>, and that value is what the constructor
  logs and selects (\<open>setDevice\<close>). It is \<open>r mod deviceCount\<close> itself whenever the
  remainder is below 128, in particular for every rank when the device count is
  at most 128. A constructor that returns leaves the coordinator with that index;
  it returns when \<open>setDevice\<close> and \<open>malloc\<close> succeed. The value depends on the rank
  and the device count of this process only. No later \<open>createXcclComm\<close> and no
  destructor changes the device index or the rank.
  For a remainder of 128 or more the index is not \<open>r mod deviceCount\<close>. The
  counterexample is rank 200 with 256 devices: the remainder is 200, the member
  holds \<open>-56\<close>, and \<open>xpu:-56\<close> is logged and selected.
\<close>

theorem device_is_rank_mod_device_count:
  assumes "xpu_getDeviceCount w = (ZE_RESULT_SUCCESS, deviceCount)" and "0 < deviceCount"
    and "query_ranksize w = (r, n)" and "0 \<le> r"
  shows "(\<forall>b p'. bootstrap_ctor w s (- 1) t p = (Inr b, p') \<longrightarrow>
            rank b = r \<and> device b = word_of_int (r mod deviceCount) \<and>
            (r mod deviceCount < 128 \<longrightarrow> sint (device b) = r mod deviceCount)) \<and>
         (xpu_setDevice w (sint (word_of_int (r mod deviceCount) :: DeviceIndex)) = ZE_RESULT_SUCCESS \<and>
          fst (xpu_malloc w 4) = ZE_RESULT_SUCCESS \<longrightarrow>
            (\<exists>b p'. bootstrap_ctor w s (- 1) t p = (Inr b, p'))) \<and>
         XpuSetDevice (sint (word_of_int (r mod deviceCount) :: DeviceIndex))
           \<in> set (trace (snd (bootstrap_ctor w s (- 1) t p))) \<and>
         (r mod deviceCount < 128 \<longrightarrow>
            XpuSetDevice (r mod deviceCount) \<in> set (trace (snd (bootstrap_ctor w s (- 1) t p)))) \<and>
         (deviceCount \<le> 128 \<longrightarrow> r mod deviceCount < 128) \<and>
         (\<forall>w' b b' name hints q res q'.
            createXcclComm w' b name hints q = (res, b', q') \<longrightarrow>
              device b' = device b \<and> rank b' = rank b) \<and>
         (\<forall>w' b b' q res q'.
            bootstrap_dtor w' b q = (res, b', q') \<longrightarrow> device b' = device b \<and> rank b' = rank b)"
proof (intro conjI)
  from assms have m: "c_rem r deviceCount = Inr (r mod deviceCount)"
    by (simp add: c_rem_nonneg)
  from assms have nn: "0 \<le> r mod deviceCount" by simp
  have fit: "r mod deviceCount < 128 \<Longrightarrow>
      sint (word_of_int (r mod deviceCount) :: DeviceIndex) = r mod deviceCount"
    using nn by (rule sint_device_index)
  show "\<forall>b p'. bootstrap_ctor w s (- 1) t p = (Inr b, p') \<longrightarrow>
            rank b = r \<and> device b = word_of_int (r mod deviceCount) \<and>
            (r mod deviceCount < 128 \<longrightarrow> sint (device b) = r mod deviceCount)"
    using assms m fit
    by (auto simp: bootstrap_ctor_def XPU_CHECK_def Let_def split: option.splits if_splits)
  show "xpu_setDevice w (sint (word_of_int (r mod deviceCount) :: DeviceIndex)) = ZE_RESULT_SUCCESS \<and>
          fst (xpu_malloc w 4) = ZE_RESULT_SUCCESS \<longrightarrow>
            (\<exists>b p'. bootstrap_ctor w s (- 1) t p = (Inr b, p'))"
    using assms m
    by (auto simp: bootstrap_ctor_def XPU_CHECK_def Let_def split: option.splits)
  show e: "XpuSetDevice (sint (word_of_int (r mod deviceCount) :: DeviceIndex))
      \<in> set (trace (snd (bootstrap_ctor w s (- 1) t p)))"
    using assms m
    by (auto simp: bootstrap_ctor_def XPU_CHECK_def Let_def emit_def split: option.splits)
  show "r mod deviceCount < 128 \<longrightarrow>
      XpuSetDevice (r mod deviceCount) \<in> set (trace (snd (bootstrap_ctor w s (- 1) t p)))"
    using e fit by auto
  show "deviceCount \<le> 128 \<longrightarrow> r mod deviceCount < 128"
  proof
    assume "deviceCount \<le> 128"
    moreover from assms have "r mod deviceCount < deviceCount" by simp
    ultimately show "r mod deviceCount < 128" by linarith
  qed
  show "\<forall>w' b b' name hints q res q'.
            createXcclComm w' b name hints q = (res, b', q') \<longrightarrow>
              device b' = device b \<and> rank b' = rank b"
    using createXcclComm_frame by blast
  show "\<forall>w' b b' q res q'.
            bootstrap_dtor w' b q = (res, b', q') \<longrightarrow> device b' = device b \<and> rank b' = rank b"
    using bootstrap_dtor_frame by blast
qed

theorem device_is_rank_mod_device_count_counterexample:
  "xpu_getDeviceCount (example_world\<lparr>query_ranksize := (200, 256),
        xpu_getDeviceCount := (ZE_RESULT_SUCCESS, 256)\<rparr>) = (ZE_RESULT_SUCCESS, 256) \<and>
   (200 :: int) mod 256 = 200 \<and>
   bootstrap_ctor (example_world\<lparr>query_ranksize := (200, 256),
        xpu_getDeviceCount := (ZE_RESULT_SUCCESS, 256)\<rparr>) None (- 1) 1000 process_start =
     (Inr \<lparr>timeout = 1000, store = None, created_internal_store = False, device = - 56,
           rank = 200, comm_size = 256, uniqueid_xchg_method = ''auto'', barrier_buffer = 4096\<rparr>,
      process_start\<lparr>trace :=
        [Log INFO ''TORCHCOMM_XCCL_BOOTSTRAP_UNIQUEID_EXCHANGE_METHOD not set, defaulting to auto'',
         XpuGetDeviceCount,
         Log INFO ''User did not provide device ID; using device xpu:-56'',
         XpuSetDevice (- 56), XpuMalloc 4]\<rparr>) \<and>
   sint (- 56 :: DeviceIndex) = - 56 \<and>
   sint (- 56 :: DeviceIndex) \<noteq> 200 mod 256"
  by code_simp

theorem device_is_rank_mod_device_count_witness:
  "xpu_getDeviceCount (example_world\<lparr>query_ranksize := (6, 8)\<rparr>) = (ZE_RESULT_SUCCESS, 4) \<and>
   (0 :: int) < 4 \<and>
   query_ranksize (example_world\<lparr>query_ranksize := (6, 8)\<rparr>) = (6, 8) \<and>
   (0 :: int) \<le> 6 \<and>
   (6 :: int) mod 4 < 128 \<and>
   bootstrap_ctor (example_world\<lparr>query_ranksize := (6, 8)\<rparr>) None (- 1) 1000 process_start =
     (Inr \<lparr>timeout = 1000, store = None, created_internal_store = False, device = 2,
           rank = 6, comm_size = 8, uniqueid_xchg_method = ''auto'', barrier_buffer = 4096\<rparr>,
      process_start\<lparr>trace :=
        [Log INFO ''TORCHCOMM_XCCL_BOOTSTRAP_UNIQUEID_EXCHANGE_METHOD not set, defaulting to auto'',
         XpuGetDeviceCount,
         Log INFO ''User did not provide device ID; using device xpu:2'',
         XpuSetDevice 2, XpuMalloc 4]\<rparr>) \<and>
   rank \<lparr>timeout = 1000, store = None, created_internal_store = False, device = 2,
           rank = 6, comm_size = 8, uniqueid_xchg_method = ''auto'', barrier_buffer = 4096\<rparr> = 6 \<and>
   device \<lparr>timeout = 1000, store = None, created_internal_store = False, device = 2,
           rank = 6, comm_size = 8, uniqueid_xchg_method = ''auto'', barrier_buffer = 4096\<rparr> = word_of_int (6 mod 4) \<and>
   sint (device \<lparr>timeout = 1000, store = None, created_internal_store = False, device = 2,
           rank = 6, comm_size = 8, uniqueid_xchg_method = ''auto'', barrier_buffer = 4096\<rparr>) = 6 mod 4 \<and>
   (6 :: int) mod 4 = 2 \<and>
   xpu_setDevice (example_world\<lparr>query_ranksize := (6, 8)\<rparr>)
       (sint (word_of_int (6 mod 4) :: DeviceIndex)) = ZE_RESULT_SUCCESS \<and>
   fst (xpu_malloc (example_world\<lparr>query_ranksize := (6, 8)\<rparr>) 4) = ZE_RESULT_SUCCESS \<and>
   (\<exists>b p'. bootstrap_ctor (example_world\<lparr>query_ranksize := (6, 8)\<rparr>) None (- 1) 1000 process_start =
      (Inr b, p')) \<and>
   XpuSetDevice (6 mod 4) \<in>
     set (trace (snd (bootstrap_ctor (example_world\<lparr>query_ranksize := (6, 8)\<rparr>) None (- 1) 1000
                        process_start))) \<and>
   (4 :: int) \<le> 128 \<and>
   createXcclComm (example_world\<lparr>getenv := (\<lambda>k. Some ''10.0.0.1'')\<rparr>)
       \<lparr>timeout = 1000, store = None, created_internal_store = False, device = 2,
           rank = 6, comm_size = 8, uniqueid_xchg_method = ''auto'', barrier_buffer = 4096\<rparr>
       ''c'' [] process_start =
     (Inr 99,
      \<lparr>timeout = 1000, store = None, created_internal_store = True, device = 2,
           rank = 6, comm_size = 8, uniqueid_xchg_method = ''auto'', barrier_buffer = 4096\<rparr>,
      process_start\<lparr>counter := 1, trace :=
        [StoreManagerGetStore ''xccl'' ''c'' 1000, StoreGet 5 ''xccl_storekey_0'',
         XcclCommInitRankConfig 8 [1, 2, 3, 4] 6
           ((XCCL_CONFIG_INITIALIZER example_world)\<lparr>commName := Some ''c''\<rparr>),
         StoreReset 5, XpuGetCurrentXPUStream 2, XcclAllReduce 4096 4096 1 99 7,
         XpuStreamSynchronize 7]\<rparr>) \<and>
   device \<lparr>timeout = 1000, store = None, created_internal_store = True, device = 2,
           rank = 6, comm_size = 8, uniqueid_xchg_method = ''auto'', barrier_buffer = 4096\<rparr> =
     device \<lparr>timeout = 1000, store = None, created_internal_store = False, device = 2,
           rank = 6, comm_size = 8, uniqueid_xchg_method = ''auto'', barrier_buffer = 4096\<rparr> \<and>
   rank \<lparr>timeout = 1000, store = None, created_internal_store = True, device = 2,
           rank = 6, comm_size = 8, uniqueid_xchg_method = ''auto'', barrier_buffer = 4096\<rparr> =
     rank \<lparr>timeout = 1000, store = None, created_internal_store = False, device = 2,
           rank = 6, comm_size = 8, uniqueid_xchg_method = ''auto'', barrier_buffer = 4096\<rparr> \<and>
   bootstrap_dtor example_world
       \<lparr>timeout = 1000, store = None, created_internal_store = True, device = 2,
           rank = 6, comm_size = 8, uniqueid_xchg_method = ''auto'', barrier_buffer = 4096\<rparr>
       process_start =
     (Inr (),
      \<lparr>timeout = 1000, store = None, created_internal_store = True, device = 2,
           rank = 6, comm_size = 8, uniqueid_xchg_method = ''auto'', barrier_buffer = 0\<rparr>,
      process_start\<lparr>trace := [XpuFree 4096]\<rparr>) \<and>
   device \<lparr>timeout = 1000, store = None, created_internal_store = True, device = 2,
           rank = 6, comm_size = 8, uniqueid_xchg_method = ''auto'', barrier_buffer = 0\<rparr> =
     device \<lparr>timeout = 1000, store = None, created_internal_store = True, device = 2,
           rank = 6, comm_size = 8, uniqueid_xchg_method = ''auto'', barrier_buffer = 4096\<rparr> \<and>
   rank \<lparr>timeout = 1000, store = None, created_internal_store = True, device = 2,
           rank = 6, comm_size = 8, uniqueid_xchg_method = ''auto'', barrier_buffer = 0\<rparr> =
     rank \<lparr>timeout = 1000, store = None, created_internal_store = True, device = 2,
           rank = 6, comm_size = 8, uniqueid_xchg_method = ''auto'', barrier_buffer = 4096\<rparr>"
proof -
  have h1: "xpu_getDeviceCount (example_world\<lparr>query_ranksize := (6, 8)\<rparr>) = (ZE_RESULT_SUCCESS, 4)"
    by code_simp
  have h2: "(0 :: int) < 4"
    by simp
  have h3: "query_ranksize (example_world\<lparr>query_ranksize := (6, 8)\<rparr>) = (6, 8)"
    by code_simp
  have h4: "(0 :: int) \<le> 6"
    by simp
  have h6: "xpu_setDevice (example_world\<lparr>query_ranksize := (6, 8)\<rparr>)
       (sint (word_of_int (6 mod 4) :: DeviceIndex)) = ZE_RESULT_SUCCESS \<and>
   fst (xpu_malloc (example_world\<lparr>query_ranksize := (6, 8)\<rparr>) 4) = ZE_RESULT_SUCCESS"
    by code_simp
  have h7: "(4 :: int) \<le> 128"
    by simp
  have e2: "(6 :: int) mod 4 = 2"
    by simp
  have v: "bootstrap_ctor (example_world\<lparr>query_ranksize := (6, 8)\<rparr>) None (- 1) 1000 process_start =
     (Inr \<lparr>timeout = 1000, store = None, created_internal_store = False, device = 2,
           rank = 6, comm_size = 8, uniqueid_xchg_method = ''auto'', barrier_buffer = 4096\<rparr>,
      process_start\<lparr>trace :=
        [Log INFO ''TORCHCOMM_XCCL_BOOTSTRAP_UNIQUEID_EXCHANGE_METHOD not set, defaulting to auto'',
         XpuGetDeviceCount,
         Log INFO ''User did not provide device ID; using device xpu:2'',
         XpuSetDevice 2, XpuMalloc 4]\<rparr>)"
    by code_simp
  have v2: "createXcclComm (example_world\<lparr>getenv := (\<lambda>k. Some ''10.0.0.1'')\<rparr>)
       \<lparr>timeout = 1000, store = None, created_internal_store = False, device = 2,
           rank = 6, comm_size = 8, uniqueid_xchg_method = ''auto'', barrier_buffer = 4096\<rparr>
       ''c'' [] process_start =
     (Inr 99,
      \<lparr>timeout = 1000, store = None, created_internal_store = True, device = 2,
           rank = 6, comm_size = 8, uniqueid_xchg_method = ''auto'', barrier_buffer = 4096\<rparr>,
      process_start\<lparr>counter := 1, trace :=
        [StoreManagerGetStore ''xccl'' ''c'' 1000, StoreGet 5 ''xccl_storekey_0'',
         XcclCommInitRankConfig 8 [1, 2, 3, 4] 6
           ((XCCL_CONFIG_INITIALIZER example_world)\<lparr>commName := Some ''c''\<rparr>),
         StoreReset 5, XpuGetCurrentXPUStream 2, XcclAllReduce 4096 4096 1 99 7,
         XpuStreamSynchronize 7]\<rparr>)"
    by code_simp
  have v3: "bootstrap_dtor example_world
       \<lparr>timeout = 1000, store = None, created_internal_store = True, device = 2,
           rank = 6, comm_size = 8, uniqueid_xchg_method = ''auto'', barrier_buffer = 4096\<rparr>
       process_start =
     (Inr (),
      \<lparr>timeout = 1000, store = None, created_internal_store = True, device = 2,
           rank = 6, comm_size = 8, uniqueid_xchg_method = ''auto'', barrier_buffer = 0\<rparr>,
      process_start\<lparr>trace := [XpuFree 4096]\<rparr>)"
    by code_simp
  note t = device_is_rank_mod_device_count [OF h1 h2 h3 h4, of None 1000 process_start]
  note h5 = t [THEN conjunct2, THEN conjunct2, THEN conjunct2, THEN conjunct2, THEN conjunct1,
      THEN mp, OF h7]
  note c2 = t [THEN conjunct2, THEN conjunct1, THEN mp, OF h6]
  note c1 = t [THEN conjunct1, THEN spec, THEN spec, THEN mp, OF v]
  note c1c = c1 [THEN conjunct2, THEN conjunct2, THEN mp, OF h5]
  note c4 = t [THEN conjunct2, THEN conjunct2, THEN conjunct2, THEN conjunct1, THEN mp, OF h5]
  note c6 = t [THEN conjunct2, THEN conjunct2, THEN conjunct2, THEN conjunct2, THEN conjunct2,
      THEN conjunct1, THEN spec, THEN spec, THEN spec, THEN spec, THEN spec, THEN spec,
      THEN spec, THEN spec, THEN mp, OF v2]
  note c7 = t [THEN conjunct2, THEN conjunct2, THEN conjunct2, THEN conjunct2, THEN conjunct2,
      THEN conjunct2, THEN spec, THEN spec, THEN spec, THEN spec, THEN spec, THEN spec,
      THEN mp, OF v3]
  show ?thesis
    by (intro conjI) (rule h1 h2 h3 h4 h5 v c1 [THEN conjunct1] c1 [THEN conjunct2, THEN conjunct1]
        c1c e2 h6 [THEN conjunct1] h6 [THEN conjunct2] c2 c4 h7 v2 c6 [THEN conjunct1]
        c6 [THEN conjunct2] v3 c7 [THEN conjunct1] c7 [THEN conjunct2])+
qed

subsection \<open>A store supplied from outside\<close>

lemma bootstrap_ctor_store:
  assumes "bootstrap_ctor w s d t p = (Inr b, p')"
  shows "store b = s \<and> \<not> created_internal_store b"
  using assms
  by (auto simp: bootstrap_ctor_def Let_def split: option.splits if_splits sum.splits)

lemma exchangeUniqueIdStore_teardown:
  "filter is_teardown (trace (snd (exchangeUniqueIdStore w b p))) = filter is_teardown (trace p)"
  by (simp add: exchangeUniqueIdStore_def getXCCLStoreKey_def emit_def Let_def
        split: option.splits sum.splits)

lemma createXcclComm_external_store:
  assumes "store b = Some h" and "\<not> created_internal_store b"
  shows "fst (snd (createXcclComm w b name hints p)) = b \<and>
         filter is_teardown (trace (snd (snd (createXcclComm w b name hints p)))) =
           filter is_teardown (trace p)"
proof -
  obtain x p1 where x: "exchangeUniqueIdStore w b p = (x, p1)"
    by (cases "exchangeUniqueIdStore w b p")
  from exchangeUniqueIdStore_teardown [of w b p] x
  have t1: "filter is_teardown (trace p1) = filter is_teardown (trace p)" by simp
  from assms x have e: "exchangeUniqueId w b name p = (x, b, p1)"
    by (simp add: exchangeUniqueId_def)
  show ?thesis
  proof (cases x)
    case (Inl e0)
    with e t1 show ?thesis by (simp add: createXcclComm_def)
  next
    case (Inr uniqueId)
    let ?c = "(XCCL_CONFIG_INITIALIZER w)\<lparr>commName := Some (strdup name)\<rparr>"
    obtain y p2 where y: "populateXcclConfigFromHints ?c hints name p1 = (y, p2)"
      by (cases "populateXcclConfigFromHints ?c hints name p1")
    from populate_logs_only [of is_teardown ?c hints name p1] y t1
    have t2: "filter is_teardown (trace p2) = filter is_teardown (trace p)" by simp
    from assms have c: "\<And>comm q. cleanupTCPStore w b comm q = (Inr (), b, q)"
      by (simp add: cleanupTCPStore_def)
    from e Inr y t2 show ?thesis
      by (cases y) (simp_all add: createXcclComm_def Let_def c emit_def)
  qed
qed

lemma create_calls_external_store:
  assumes "store b = Some h" and "\<not> created_internal_store b"
  shows "fst (create_calls cs b p) = b \<and>
         filter is_teardown (trace (snd (create_calls cs b p))) = filter is_teardown (trace p)"
proof (induction cs arbitrary: p)
  case Nil
  show ?case by simp
next
  case (Cons c cs)
  from createXcclComm_external_store [OF assms, of "fst c" "fst (snd c)" "snd (snd c)" p]
    Cons.IH [of "snd (snd (createXcclComm (fst c) b (fst (snd c)) (snd (snd c)) p))"]
  show ?case by (simp add: Let_def)
qed

lemma bootstrap_dtor_teardown:
  "filter is_teardown (trace (snd (snd (bootstrap_dtor w b p)))) = filter is_teardown (trace p)"
  by (simp add: bootstrap_dtor_def Let_def emit_def split: option.splits)

text \<open>
  C7. A coordinator constructed with a store keeps that store and has
  \<open>created_internal_store_\<close> false. For a coordinator in that state,
  \<open>cleanupTCPStore\<close> does nothing at all; \<open>createXcclComm\<close>, whether it returns or
  throws, leaves every member as it was, so the state holds again at the next
  call and through any sequence of calls; and neither these calls nor the body of
  the destructor drop the store reference, ask for the stream, run the barrier
  all-reduce or synchronize a stream. (The destructor of the object's members,
  which ends the coordinator's own reference to the store when the object dies, is
  the language's and not a statement of this component.)
\<close>

theorem external_store_never_torn_down:
  "(\<forall>b p'. bootstrap_ctor w (Some h) d t p0 = (Inr b, p') \<longrightarrow>
       store b = Some h \<and> \<not> created_internal_store b) \<and>
   (store b = Some h \<and> \<not> created_internal_store b \<longrightarrow>
      cleanupTCPStore w b comm p = (Inr (), b, p) \<and>
      fst (snd (createXcclComm w b name hints p)) = b \<and>
      filter is_teardown (trace (snd (snd (createXcclComm w b name hints p)))) =
        filter is_teardown (trace p) \<and>
      fst (create_calls calls b p) = b \<and>
      filter is_teardown (trace (snd (create_calls calls b p))) = filter is_teardown (trace p) \<and>
      store (fst (snd (bootstrap_dtor w b p))) = Some h \<and>
      \<not> created_internal_store (fst (snd (bootstrap_dtor w b p))) \<and>
      filter is_teardown (trace (snd (snd (bootstrap_dtor w b p)))) = filter is_teardown (trace p))"
proof (intro conjI allI impI)
  fix b' p'
  assume "bootstrap_ctor w (Some h) d t p0 = (Inr b', p')"
  from bootstrap_ctor_store [OF this]
  show "store b' = Some h" and "\<not> created_internal_store b'" by simp_all
next
  assume a: "store b = Some h \<and> \<not> created_internal_store b"
  then have s: "store b = Some h" and f: "\<not> created_internal_store b" by simp_all
  from f show "cleanupTCPStore w b comm p = (Inr (), b, p)"
    by (simp add: cleanupTCPStore_def)
  from createXcclComm_external_store [OF s f, of w name hints p]
  show "fst (snd (createXcclComm w b name hints p)) = b"
    and "filter is_teardown (trace (snd (snd (createXcclComm w b name hints p)))) =
        filter is_teardown (trace p)" by simp_all
  from create_calls_external_store [OF s f, of calls p]
  show "fst (create_calls calls b p) = b"
    and "filter is_teardown (trace (snd (create_calls calls b p))) = filter is_teardown (trace p)"
    by simp_all
  obtain r b' p' where d: "bootstrap_dtor w b p = (r, b', p')"
    by (cases "bootstrap_dtor w b p")
  from bootstrap_dtor_frame [OF d] d s f
  show "store (fst (snd (bootstrap_dtor w b p))) = Some h"
    and "\<not> created_internal_store (fst (snd (bootstrap_dtor w b p)))" by simp_all
  show "filter is_teardown (trace (snd (snd (bootstrap_dtor w b p)))) = filter is_teardown (trace p)"
    by (rule bootstrap_dtor_teardown)
qed


theorem external_store_never_torn_down_witness:
  "bootstrap_ctor example_world (Some 5) 1 1000 process_start =
     (Inr (example_bootstrap\<lparr>store := Some 5\<rparr>),
      process_start\<lparr>trace :=
        [Log INFO ''TORCHCOMM_XCCL_BOOTSTRAP_UNIQUEID_EXCHANGE_METHOD not set, defaulting to auto'',
         XpuSetDevice 1, XpuMalloc 4]\<rparr>) \<and>
   store (example_bootstrap\<lparr>store := Some 5\<rparr>) = Some 5 \<and>
   \<not> created_internal_store (example_bootstrap\<lparr>store := Some 5\<rparr>) \<and>
   createXcclComm example_world (example_bootstrap\<lparr>store := Some 5\<rparr>) ''c'' [] process_start =
     (Inr 99, example_bootstrap\<lparr>store := Some 5\<rparr>,
      process_start\<lparr>counter := 1, trace :=
        [StoreGet 5 ''xccl_storekey_0'',
         XcclCommInitRankConfig 2 [1, 2, 3, 4] 1
           ((XCCL_CONFIG_INITIALIZER example_world)\<lparr>commName := Some ''c''\<rparr>)]\<rparr>) \<and>
   fst (snd (createXcclComm example_world (example_bootstrap\<lparr>store := Some 5\<rparr>) ''c'' []
               process_start)) = example_bootstrap\<lparr>store := Some 5\<rparr> \<and>
   fst (create_calls [(example_world, ''c'', []), (example_world, ''d'', [(''blocking'', ''1'')])]
          (example_bootstrap\<lparr>store := Some 5\<rparr>) process_start) =
     example_bootstrap\<lparr>store := Some 5\<rparr> \<and>
   filter is_teardown
     (trace (snd (create_calls [(example_world, ''c'', []), (example_world, ''d'', [(''blocking'', ''1'')])]
                    (example_bootstrap\<lparr>store := Some 5\<rparr>) process_start))) =
     filter is_teardown (trace process_start)"
proof -
  have v0: "bootstrap_ctor example_world (Some 5) 1 1000 process_start =
     (Inr (example_bootstrap\<lparr>store := Some 5\<rparr>),
      process_start\<lparr>trace :=
        [Log INFO ''TORCHCOMM_XCCL_BOOTSTRAP_UNIQUEID_EXCHANGE_METHOD not set, defaulting to auto'',
         XpuSetDevice 1, XpuMalloc 4]\<rparr>)"
    by code_simp
  have h: "store (example_bootstrap\<lparr>store := Some 5\<rparr>) = Some 5 \<and>
      \<not> created_internal_store (example_bootstrap\<lparr>store := Some 5\<rparr>)"
    by code_simp
  have v1: "createXcclComm example_world (example_bootstrap\<lparr>store := Some 5\<rparr>) ''c'' [] process_start =
     (Inr 99, example_bootstrap\<lparr>store := Some 5\<rparr>,
      process_start\<lparr>counter := 1, trace :=
        [StoreGet 5 ''xccl_storekey_0'',
         XcclCommInitRankConfig 2 [1, 2, 3, 4] 1
           ((XCCL_CONFIG_INITIALIZER example_world)\<lparr>commName := Some ''c''\<rparr>)]\<rparr>)"
    by code_simp
  from external_store_never_torn_down
         [where w = example_world and h = 5 and d = 1 and t = 1000 and ?p0.0 = process_start
            and b = "example_bootstrap\<lparr>store := Some 5\<rparr>" and comm = 99 and p = process_start
            and name = "''c''" and hints = "[]"
            and calls = "[(example_world, ''c'', []), (example_world, ''d'', [(''blocking'', ''1'')])]"]
       v0 h v1
  show ?thesis by blast
qed

subsection \<open>The closing barrier\<close>

text \<open>
  C8 (amended). In a \<open>createXcclComm\<close> call in which the coordinator holds a store
  it created itself, the exchange and the hints went through and the backend
  constructed the communicator \<open>comm\<close>: a failure status of the barrier all-reduce
  is logged (\<open>XCCL AllReduce failed: ...\<close>) and does not fail the call, which
  returns \<open>comm\<close> if the stream synchronization after the all-reduce succeeds. A
  failure of that stream synchronization is not swallowed: \<open>XPU_CHECK\<close> throws
  \<open>Stream synchronization failed: ...\<close> and \<open>createXcclComm\<close> fails, although the
  communicator was constructed. The counterexample is such a call: the world's
  \<open>streamSynchronize\<close> reports a lost device.
\<close>

theorem closing_barrier_failure:
  assumes ex: "exchangeUniqueId w b name p = (Inr uniqueId, b1, p1)"
    and hp: "populateXcclConfigFromHints ((XCCL_CONFIG_INITIALIZER w)\<lparr>commName := Some (strdup name)\<rparr>)
               hints name p1 = (Inr config, p2)"
    and ci: "xccl_commInitRankConfig w (comm_size b1) uniqueId (rank b1) config = (onecclSuccess, comm)"
    and nn: "comm \<noteq> 0"
    and own: "created_internal_store b1"
    and st: "stream = xpu_getCurrentXPUStream w (sint (device b1))"
    and ar: "result = xccl_allReduce w (barrier_buffer b1) (barrier_buffer b1) 1 comm stream"
  shows "(xpu_streamSynchronize w stream = ZE_RESULT_SUCCESS \<longrightarrow>
            fst (createXcclComm w b name hints p) = Inr comm) \<and>
         (result \<noteq> onecclSuccess \<longrightarrow>
            Log ERROR (''XCCL AllReduce failed: '' @ xccl_getErrorString w result)
              \<in> set (trace (snd (snd (createXcclComm w b name hints p))))) \<and>
         (xpu_streamSynchronize w stream \<noteq> ZE_RESULT_SUCCESS \<longrightarrow>
            fst (createXcclComm w b name hints p) =
              Inl (runtime_error
                (''Stream synchronization failed: '' @
                 xpu_getErrorString w (xpu_streamSynchronize w stream) @ '' at '' @
                 source_location w 184)))"
  using assms
  by (auto simp: createXcclComm_def cleanupTCPStore_def XPU_CHECK_def Let_def emit_def
        split: option.splits)

theorem closing_barrier_failure_counterexample:
  "xccl_commInitRankConfig
     (example_world\<lparr>getenv := (\<lambda>k. Some ''10.0.0.1''),
        xpu_streamSynchronize := (\<lambda>s. ZE_RESULT_ERROR_DEVICE_LOST)\<rparr>)
     2 [1, 2, 3, 4] 1 ((XCCL_CONFIG_INITIALIZER example_world)\<lparr>commName := Some ''c''\<rparr>) =
     (onecclSuccess, 99) \<and>
   createXcclComm
     (example_world\<lparr>getenv := (\<lambda>k. Some ''10.0.0.1''),
        xpu_streamSynchronize := (\<lambda>s. ZE_RESULT_ERROR_DEVICE_LOST)\<rparr>)
     example_bootstrap ''c'' [] process_start =
     (Inl (runtime_error
        ''Stream synchronization failed: ze error at TorchCommXCCLBootstrap.cpp:184''),
      example_bootstrap\<lparr>store := None, created_internal_store := True\<rparr>,
      process_start\<lparr>counter := 1, trace :=
        [StoreManagerGetStore ''xccl'' ''c'' 1000, StoreGet 5 ''xccl_storekey_0'',
         XcclCommInitRankConfig 2 [1, 2, 3, 4] 1
           ((XCCL_CONFIG_INITIALIZER example_world)\<lparr>commName := Some ''c''\<rparr>),
         StoreReset 5, XpuGetCurrentXPUStream 1, XcclAllReduce 4096 4096 1 99 7,
         XpuStreamSynchronize 7]\<rparr>)"
  by code_simp

theorem closing_barrier_failure_witness:
  "createXcclComm
     (example_world\<lparr>getenv := (\<lambda>k. Some ''10.0.0.1''),
        xccl_allReduce := (\<lambda>s r n c st. onecclFailure 1)\<rparr>)
     example_bootstrap ''c'' [] process_start =
     (Inr 99, example_bootstrap\<lparr>store := None, created_internal_store := True\<rparr>,
      process_start\<lparr>counter := 1, trace :=
        [StoreManagerGetStore ''xccl'' ''c'' 1000, StoreGet 5 ''xccl_storekey_0'',
         XcclCommInitRankConfig 2 [1, 2, 3, 4] 1
           ((XCCL_CONFIG_INITIALIZER example_world)\<lparr>commName := Some ''c''\<rparr>),
         StoreReset 5, XpuGetCurrentXPUStream 1, XcclAllReduce 4096 4096 1 99 7,
         Log ERROR ''XCCL AllReduce failed: xccl error'',
         XpuStreamSynchronize 7]\<rparr>) \<and>
   fst (createXcclComm
     (example_world\<lparr>getenv := (\<lambda>k. Some ''10.0.0.1''),
        xccl_allReduce := (\<lambda>s r n c st. onecclFailure 1)\<rparr>)
     example_bootstrap ''c'' [] process_start) = Inr 99 \<and>
   fst (createXcclComm
     (example_world\<lparr>getenv := (\<lambda>k. Some ''10.0.0.1''),
        xpu_streamSynchronize := (\<lambda>s. ZE_RESULT_ERROR_DEVICE_LOST)\<rparr>)
     example_bootstrap ''c'' [] process_start) =
     Inl (runtime_error
       (''Stream synchronization failed: '' @
        xpu_getErrorString (example_world\<lparr>getenv := (\<lambda>k. Some ''10.0.0.1''),
           xpu_streamSynchronize := (\<lambda>s. ZE_RESULT_ERROR_DEVICE_LOST)\<rparr>)
          (xpu_streamSynchronize (example_world\<lparr>getenv := (\<lambda>k. Some ''10.0.0.1''),
             xpu_streamSynchronize := (\<lambda>s. ZE_RESULT_ERROR_DEVICE_LOST)\<rparr>) 7) @ '' at '' @
        source_location (example_world\<lparr>getenv := (\<lambda>k. Some ''10.0.0.1''),
           xpu_streamSynchronize := (\<lambda>s. ZE_RESULT_ERROR_DEVICE_LOST)\<rparr>) 184))"
proof -
  let ?w = "example_world\<lparr>getenv := (\<lambda>k. Some ''10.0.0.1''),
        xccl_allReduce := (\<lambda>s r n c st. onecclFailure 1)\<rparr>"
  let ?v = "example_world\<lparr>getenv := (\<lambda>k. Some ''10.0.0.1''),
        xpu_streamSynchronize := (\<lambda>s. ZE_RESULT_ERROR_DEVICE_LOST)\<rparr>"
  let ?b1 = "example_bootstrap\<lparr>store := Some 5, created_internal_store := True\<rparr>"
  let ?p1 = "process_start\<lparr>counter := 1, trace :=
        [StoreManagerGetStore ''xccl'' ''c'' 1000, StoreGet 5 ''xccl_storekey_0'']\<rparr>"
  let ?c = "(XCCL_CONFIG_INITIALIZER example_world)\<lparr>commName := Some ''c''\<rparr>"
  have ex: "exchangeUniqueId ?w example_bootstrap ''c'' process_start = (Inr [1, 2, 3, 4], ?b1, ?p1)"
    by code_simp
  have hp: "populateXcclConfigFromHints ((XCCL_CONFIG_INITIALIZER ?w)\<lparr>commName := Some (strdup ''c'')\<rparr>)
      [] ''c'' ?p1 = (Inr ?c, ?p1)"
    by code_simp
  have ci: "xccl_commInitRankConfig ?w (comm_size ?b1) [1, 2, 3, 4] (rank ?b1) ?c = (onecclSuccess, 99)"
    by code_simp
  have nn: "(99 :: nat) \<noteq> 0" by simp
  have own: "created_internal_store ?b1" by code_simp
  have st: "7 = xpu_getCurrentXPUStream ?w (sint (device ?b1))" by code_simp
  have ar: "onecclFailure 1 = xccl_allReduce ?w (barrier_buffer ?b1) (barrier_buffer ?b1) 1 99 7"
    by code_simp
  have sy: "xpu_streamSynchronize ?w 7 = ZE_RESULT_SUCCESS" by code_simp
  have ex': "exchangeUniqueId ?v example_bootstrap ''c'' process_start = (Inr [1, 2, 3, 4], ?b1, ?p1)"
    by code_simp
  have hp': "populateXcclConfigFromHints ((XCCL_CONFIG_INITIALIZER ?v)\<lparr>commName := Some (strdup ''c'')\<rparr>)
      [] ''c'' ?p1 = (Inr ?c, ?p1)"
    by code_simp
  have ci': "xccl_commInitRankConfig ?v (comm_size ?b1) [1, 2, 3, 4] (rank ?b1) ?c = (onecclSuccess, 99)"
    by code_simp
  have st': "7 = xpu_getCurrentXPUStream ?v (sint (device ?b1))" by code_simp
  have ar': "onecclSuccess = xccl_allReduce ?v (barrier_buffer ?b1) (barrier_buffer ?b1) 1 99 7"
    by code_simp
  have sy': "xpu_streamSynchronize ?v 7 \<noteq> ZE_RESULT_SUCCESS" by code_simp
  have v: "createXcclComm ?w example_bootstrap ''c'' [] process_start =
     (Inr 99, example_bootstrap\<lparr>store := None, created_internal_store := True\<rparr>,
      process_start\<lparr>counter := 1, trace :=
        [StoreManagerGetStore ''xccl'' ''c'' 1000, StoreGet 5 ''xccl_storekey_0'',
         XcclCommInitRankConfig 2 [1, 2, 3, 4] 1 ?c,
         StoreReset 5, XpuGetCurrentXPUStream 1, XcclAllReduce 4096 4096 1 99 7,
         Log ERROR ''XCCL AllReduce failed: xccl error'',
         XpuStreamSynchronize 7]\<rparr>)"
    by code_simp
  from closing_barrier_failure [OF ex hp ci nn own st ar] sy
       closing_barrier_failure [OF ex' hp' ci' nn own st' ar'] sy' v
  show ?thesis by blast
qed

subsection \<open>The exchange method at construction\<close>

lemma exchangeUniqueIdStore_method:
  "exchangeUniqueIdStore w (b\<lparr>uniqueid_xchg_method := m\<rparr>) p = exchangeUniqueIdStore w b p"
  by (simp add: exchangeUniqueIdStore_def Let_def split: prod.splits sum.splits)

lemma cleanupTCPStore_method:
  "cleanupTCPStore w (b\<lparr>uniqueid_xchg_method := m\<rparr>) c p =
     (case cleanupTCPStore w b c p of (r, b', p') \<Rightarrow> (r, b'\<lparr>uniqueid_xchg_method := m\<rparr>, p'))"
  by (simp add: cleanupTCPStore_def Let_def split: option.splits)

lemma createXcclComm_method:
  assumes "store b \<noteq> None"
  shows "createXcclComm w (b\<lparr>uniqueid_xchg_method := m\<rparr>) name hints p =
     (case createXcclComm w b name hints p of
        (r, b', p') \<Rightarrow> (r, b'\<lparr>uniqueid_xchg_method := m\<rparr>, p'))"
  using assms
  by (simp add: createXcclComm_def exchangeUniqueId_def exchangeUniqueIdStore_method
        cleanupTCPStore_method Let_def split: sum.splits prod.splits)

lemma bootstrap_ctor_method:
  "bootstrap_ctor (w\<lparr>getenv := (getenv w)(''TORCHCOMM_XCCL_BOOTSTRAP_UNIQUEID_EXCHANGE_METHOD'' \<mapsto> v')\<rparr>)
      s d t p =
     (case bootstrap_ctor
             (w\<lparr>getenv := (getenv w)(''TORCHCOMM_XCCL_BOOTSTRAP_UNIQUEID_EXCHANGE_METHOD'' \<mapsto> v)\<rparr>)
             s d t p of
        (Inl e, p') \<Rightarrow> (Inl e, p')
      | (Inr b, p') \<Rightarrow> (Inr (b\<lparr>uniqueid_xchg_method := map tolower v'\<rparr>), p'))"
  by (simp add: bootstrap_ctor_def XPU_CHECK_def Let_def split: option.splits sum.splits)

lemma bootstrap_ctor_method_value:
  assumes "bootstrap_ctor w s d t p = (Inr b, p')"
  shows "uniqueid_xchg_method b =
     map tolower (case getenv w ''TORCHCOMM_XCCL_BOOTSTRAP_UNIQUEID_EXCHANGE_METHOD'' of
                    None \<Rightarrow> ''auto'' | Some v \<Rightarrow> v)"
  using assms
  by (auto simp: bootstrap_ctor_def XPU_CHECK_def Let_def kUniqueidXchgMethodDefault_def
        kUniqueidXchgMethodAuto_def split: option.splits sum.splits if_splits)


text \<open>
  C9. The constructor stores the value of
  \<open>TORCHCOMM_XCCL_BOOTSTRAP_UNIQUEID_EXCHANGE_METHOD\<close>, or \<open>auto\<close> when the variable
  is not set, in lower case, and does not look at it: with the variable set to
  \<open>v'\<close> instead of \<open>v\<close>, the constructor throws the same exception or returns the
  same coordinator but for the stored method, with the same trace, whatever the
  two strings are. On a coordinator that holds a store, \<open>createXcclComm\<close> does not
  read the method: with another method stored, its result, its trace and the
  members it leaves are the same but for the method itself. So no value of the
  method causes an error there.
\<close>

theorem exchange_method_not_validated_at_construction:
  "(\<forall>b p'. bootstrap_ctor w s d t p = (Inr b, p') \<longrightarrow>
      uniqueid_xchg_method b =
        map tolower (case getenv w ''TORCHCOMM_XCCL_BOOTSTRAP_UNIQUEID_EXCHANGE_METHOD'' of
                       None \<Rightarrow> ''auto'' | Some v \<Rightarrow> v)) \<and>
   bootstrap_ctor (w\<lparr>getenv := (getenv w)(''TORCHCOMM_XCCL_BOOTSTRAP_UNIQUEID_EXCHANGE_METHOD'' \<mapsto> v')\<rparr>)
      s d t p =
     (case bootstrap_ctor
             (w\<lparr>getenv := (getenv w)(''TORCHCOMM_XCCL_BOOTSTRAP_UNIQUEID_EXCHANGE_METHOD'' \<mapsto> v)\<rparr>)
             s d t p of
        (Inl e, p') \<Rightarrow> (Inl e, p')
      | (Inr b, p') \<Rightarrow> (Inr (b\<lparr>uniqueid_xchg_method := map tolower v'\<rparr>), p')) \<and>
   (store b \<noteq> None \<longrightarrow>
      createXcclComm w (b\<lparr>uniqueid_xchg_method := m\<rparr>) name hints q =
        (case createXcclComm w b name hints q of
           (r, b', q') \<Rightarrow> (r, b'\<lparr>uniqueid_xchg_method := m\<rparr>, q')))"
  using bootstrap_ctor_method_value [of w s d t p] bootstrap_ctor_method [of w v' s d t p v]
    createXcclComm_method [of b w m name hints q]
  by blast

theorem exchange_method_not_validated_at_construction_witness:
  "store (example_bootstrap\<lparr>store := Some 5\<rparr>) \<noteq> None \<and>
   bootstrap_ctor
     (example_world\<lparr>getenv := (getenv example_world)
        (''TORCHCOMM_XCCL_BOOTSTRAP_UNIQUEID_EXCHANGE_METHOD'' \<mapsto> ''MPI'')\<rparr>)
     None 1 1000 process_start =
     (Inr (example_bootstrap\<lparr>uniqueid_xchg_method := map tolower ''MPI''\<rparr>),
      process_start\<lparr>trace := [XpuSetDevice 1, XpuMalloc 4]\<rparr>) \<and>
   map tolower ''MPI'' = ''mpi'' \<and>
   createXcclComm example_world
     ((example_bootstrap\<lparr>store := Some 5\<rparr>)\<lparr>uniqueid_xchg_method := ''mpi''\<rparr>) ''c'' []
     process_start =
     (Inr 99, (example_bootstrap\<lparr>store := Some 5\<rparr>)\<lparr>uniqueid_xchg_method := ''mpi''\<rparr>,
      process_start\<lparr>counter := 1, trace :=
        [StoreGet 5 ''xccl_storekey_0'',
         XcclCommInitRankConfig 2 [1, 2, 3, 4] 1
           ((XCCL_CONFIG_INITIALIZER example_world)\<lparr>commName := Some ''c''\<rparr>)]\<rparr>)"
proof -
  have h: "store (example_bootstrap\<lparr>store := Some 5\<rparr>) \<noteq> None"
    by code_simp
  have v1: "bootstrap_ctor
     (example_world\<lparr>getenv := (getenv example_world)
        (''TORCHCOMM_XCCL_BOOTSTRAP_UNIQUEID_EXCHANGE_METHOD'' \<mapsto> ''auto'')\<rparr>)
     None 1 1000 process_start =
     (Inr example_bootstrap, process_start\<lparr>trace := [XpuSetDevice 1, XpuMalloc 4]\<rparr>)"
    by code_simp
  have l: "map tolower ''MPI'' = ''mpi''"
    by code_simp
  have v2: "createXcclComm example_world (example_bootstrap\<lparr>store := Some 5\<rparr>) ''c'' []
     process_start =
     (Inr 99, example_bootstrap\<lparr>store := Some 5\<rparr>,
      process_start\<lparr>counter := 1, trace :=
        [StoreGet 5 ''xccl_storekey_0'',
         XcclCommInitRankConfig 2 [1, 2, 3, 4] 1
           ((XCCL_CONFIG_INITIALIZER example_world)\<lparr>commName := Some ''c''\<rparr>)]\<rparr>)"
    by code_simp
  from exchange_method_not_validated_at_construction
         [where w = example_world and s = None and d = 1 and t = 1000 and p = process_start
            and v = "''auto''" and v' = "''MPI''" and b = "example_bootstrap\<lparr>store := Some 5\<rparr>"
            and m = "''mpi''" and name = "''c''" and hints = "[]" and q = process_start]
       h v1 l v2
  show ?thesis by simp
qed

subsection \<open>The device count of the Device API\<close>











end
